theory Spec2Isabelle
  imports Complex_Main
begin

section \<open>Data model (src/lib/types/index.ts)\<close>

text \<open>
  TypeScript \<open>number\<close> values (coordinates, sizes, kerf, priorities, areas) are modelled
  as exact rationals: no rounding, no NaN and no Infinity. The source computes in IEEE
  doubles, so a sum or difference of fractional values (the edge of a strip, for one)
  can differ from the exact value in its last bit; and a division by a zero panel area
  gives NaN or Infinity there and 0 here. The statements below that evaluate a run do so
  at integer values, where doubles are exact; the statements over all inputs rest on
  comparisons and on the shape of the computation only, not on a computed sum or
  quotient, except where their text says that they are about exact arithmetic.
  The loop counter \<open>quantity\<close> is an integer. Optional fields are options; a test
  such as \<open>if (piece.canRotate)\<close> holds for \<open>Some True\<close> only, and
  \<open>piece.priority || 0\<close> reads a missing priority as 0.
\<close>

record OptimizationPiece =
  piece_id :: string
  piece_width :: rat
  piece_height :: rat
  quantity :: int
  piece_label :: "string option"
  canRotate :: "bool option"
  mustFollowGrain :: "bool option"
  priority :: "rat option"

record OptimizationPanel =
  panel_width :: rat
  panel_height :: rat

text \<open>Of the settings only \<open>kerf\<close> is read by the placement code; padding, cut
  preference and timeout are never consulted and are left out of the record.\<close>

record OptimizationSettings =
  kerf :: rat

record Rectangle =
  x :: rat
  y :: rat
  width :: rat
  height :: rat

record PlacedPiece =
  pp_id :: string
  pp_x :: rat
  pp_y :: rat
  pp_width :: rat
  pp_height :: rat
  rotated :: bool
  sheetNumber :: nat
  pp_label :: "string option"

text \<open>The result of a strategy. The cut instructions and the wall-clock execution time
  of the source's \<open>AlgorithmResult\<close> are not modelled.\<close>

record AlgorithmResult =
  placedPieces :: "PlacedPiece list"
  unusedPieces :: "OptimizationPiece list"
  efficiency :: rat
  totalArea :: rat
  usedArea :: rat
  wastedArea :: rat
  sheetCount :: int
  algorithm :: string

text \<open>Every failure of the source is \<open>throw new Error(message)\<close>.\<close>

datatype error = Error string

text \<open>A sheet of a strategy: its placed pieces and its free rectangles. The pieces are
  values where the strategy never writes to a placed piece again (First-Fit-Decreasing),
  and references into a store of objects where it does (the hybrid strategy).\<close>

record 'p Sheet =
  sheet_placedPieces :: "'p list"
  availableSpace :: "Rectangle list"

section \<open>Shared utilities (src/unnamed/part\_000)\<close>

subsection \<open>expandPieces\<close>

text \<open>The inner loop pushes \<open>{ ...piece, quantity: 1 }\<close> once for every
  \<open>i < piece.quantity\<close>; the outer loop runs over the pieces in order.\<close>

fun expandInner :: "OptimizationPiece \<Rightarrow> nat \<Rightarrow> OptimizationPiece list \<Rightarrow> OptimizationPiece list" where
  "expandInner piece 0 expanded = expanded"
| "expandInner piece (Suc n) expanded = expandInner piece n (expanded @ [piece\<lparr>quantity := 1\<rparr>])"

fun expandOuter :: "OptimizationPiece list \<Rightarrow> OptimizationPiece list \<Rightarrow> OptimizationPiece list" where
  "expandOuter [] expanded = expanded"
| "expandOuter (piece # pieces) expanded =
     expandOuter pieces (expandInner piece (nat (quantity piece)) expanded)"

definition expandPieces :: "OptimizationPiece list \<Rightarrow> OptimizationPiece list" where
  "expandPieces pieces = expandOuter pieces []"

subsection \<open>Array.prototype.sort\<close>

text \<open>
  \<open>xs.sort(cmp)\<close> is a stable sort: \<open>a\<close> goes before \<open>b\<close> when \<open>cmp(a, b) < 0\<close>,
  after it when \<open>cmp(a, b) > 0\<close>, and equal elements keep their order. It is modelled
  as a stable insertion sort. When the comparator is a consistent ordering this is the
  one result every conforming engine returns; for an inconsistent comparator the
  language leaves the order to the engine.
\<close>

fun insortWith :: "('a \<Rightarrow> 'a \<Rightarrow> rat) \<Rightarrow> 'a \<Rightarrow> 'a list \<Rightarrow> 'a list" where
  "insortWith cmp a [] = [a]"
| "insortWith cmp a (b # bs) =
     (if cmp a b \<le> 0 then a # b # bs else b # insortWith cmp a bs)"

definition sortWith :: "('a \<Rightarrow> 'a \<Rightarrow> rat) \<Rightarrow> 'a list \<Rightarrow> 'a list" where
  "sortWith cmp xs = foldr (insortWith cmp) xs []"

subsection \<open>sortPiecesByPriority\<close>

definition priorityOr0 :: "OptimizationPiece \<Rightarrow> rat" where
  "priorityOr0 p = (case priority p of None \<Rightarrow> 0 | Some v \<Rightarrow> v)"

text \<open>The comparator of the source, as written: the secondary key subtracts
  \<open>a.width * b.height\<close> from \<open>b.width * b.height\<close>.\<close>

definition comparePriority :: "OptimizationPiece \<Rightarrow> OptimizationPiece \<Rightarrow> rat" where
  "comparePriority a b =
     (if priorityOr0 b \<noteq> priorityOr0 a then priorityOr0 b - priorityOr0 a
      else (piece_width b * piece_height b) - (piece_width a * piece_height b))"

definition sortPiecesByPriority :: "OptimizationPiece list \<Rightarrow> OptimizationPiece list" where
  "sortPiecesByPriority pieces = sortWith comparePriority pieces"

subsection \<open>splitSpace, calculateArea, rectanglesOverlap\<close>

definition spaceOverlapsUsed :: "Rectangle \<Rightarrow> Rectangle \<Rightarrow> bool" where
  "spaceOverlapsUsed usedSpace space \<longleftrightarrow>
     x usedSpace < x space + width space \<and> x usedSpace + width usedSpace > x space \<and>
     y usedSpace < y space + height space \<and> y usedSpace + height usedSpace > y space"

text \<open>What one iteration of the loop of \<open>splitSpace\<close> pushes for one free rectangle.\<close>

definition splitOne :: "Rectangle \<Rightarrow> Rectangle \<Rightarrow> Rectangle list" where
  "splitOne usedSpace space =
     (if spaceOverlapsUsed usedSpace space then
        (if y usedSpace > y space
         then [\<lparr>x = x space, y = y space, width = width space,
                height = y usedSpace - y space\<rparr>] else []) @
        (if y usedSpace + height usedSpace < y space + height space
         then [\<lparr>x = x space, y = y usedSpace + height usedSpace, width = width space,
                height = y space + height space - (y usedSpace + height usedSpace)\<rparr>] else []) @
        (if x usedSpace > x space
         then [\<lparr>x = x space, y = y space, width = x usedSpace - x space,
                height = height space\<rparr>] else []) @
        (if x usedSpace + width usedSpace < x space + width space
         then [\<lparr>x = x usedSpace + width usedSpace, y = y space,
                width = x space + width space - (x usedSpace + width usedSpace),
                height = height space\<rparr>] else [])
      else [space])"

text \<open>The parameters \<open>_pieceWidth\<close> and \<open>_pieceHeight\<close> are unused in the source too.\<close>

definition splitSpace :: "Rectangle list \<Rightarrow> Rectangle \<Rightarrow> rat \<Rightarrow> rat \<Rightarrow> rat \<Rightarrow> Rectangle list" where
  "splitSpace availableSpaces usedSpace pieceWidth pieceHeight kerf' =
     filter (\<lambda>space. width space > kerf' \<and> height space > kerf')
       (concat (map (splitOne usedSpace) availableSpaces))"

definition calculateArea :: "Rectangle \<Rightarrow> rat" where
  "calculateArea rect = width rect * height rect"

definition rectanglesOverlap :: "Rectangle \<Rightarrow> Rectangle \<Rightarrow> bool" where
  "rectanglesOverlap rect1 rect2 \<longleftrightarrow>
     \<not> (x rect1 + width rect1 \<le> x rect2 \<or>
        x rect2 + width rect2 \<le> x rect1 \<or>
        y rect1 + height rect1 \<le> y rect2 \<or>
        y rect2 + height rect2 \<le> y rect1)"

section \<open>First-Fit-Decreasing (src/lib/algorithms/first-fit-decreasing.ts)\<close>

text \<open>\<open>bestWaste\<close> starts at \<open>Infinity\<close>, modelled as \<open>None\<close>.\<close>

definition wasteBelow :: "rat \<Rightarrow> rat option \<Rightarrow> bool" where
  "wasteBelow waste bestWaste = (case bestWaste of None \<Rightarrow> True | Some b \<Rightarrow> waste < b)"

fun findBestFitLoop ::
  "OptimizationPiece \<Rightarrow> bool \<Rightarrow> Rectangle list \<Rightarrow> Rectangle option \<Rightarrow> rat option \<Rightarrow> Rectangle option" where
  "findBestFitLoop piece rot [] bestFit bestWaste = bestFit"
| "findBestFitLoop piece rot (space # spaces) bestFit bestWaste =
     (let (bestFit1, bestWaste1) =
        (if \<not> rot \<and> piece_width piece \<le> width space \<and> piece_height piece \<le> height space then
           (let waste = (width space - piece_width piece) * (height space - piece_height piece)
            in if wasteBelow waste bestWaste
               then (Some \<lparr>x = x space, y = y space, width = piece_width piece,
                            height = piece_height piece\<rparr>, Some waste)
               else (bestFit, bestWaste))
         else (bestFit, bestWaste));
          (bestFit2, bestWaste2) =
        (if rot \<and> piece_height piece \<le> width space \<and> piece_width piece \<le> height space then
           (let waste = (width space - piece_height piece) * (height space - piece_width piece)
            in if wasteBelow waste bestWaste1
               then (Some \<lparr>x = x space, y = y space, width = piece_height piece,
                            height = piece_width piece\<rparr>, Some waste)
               else (bestFit1, bestWaste1))
         else (bestFit1, bestWaste1))
      in findBestFitLoop piece rot spaces bestFit2 bestWaste2)"

definition findBestFit :: "OptimizationPiece \<Rightarrow> Rectangle list \<Rightarrow> bool \<Rightarrow> Rectangle option" where
  "findBestFit piece availableSpaces rot = findBestFitLoop piece rot availableSpaces None None"

text \<open>The strategy's private \<open>splitSpace\<close>: an \<open>if\<close> / \<open>else if\<close> / \<open>else\<close> over the
  horizontal and the vertical overlap, and no filter on the kerf. The edges of the strips
  are exact here and rounded in the source; this definition is used below only in runs
  at integer values.\<close>

definition ffdSplitOne :: "Rectangle \<Rightarrow> Rectangle \<Rightarrow> Rectangle list" where
  "ffdSplitOne placedPiece space =
     (if x placedPiece < x space + width space \<and> x placedPiece + width placedPiece > x space then
        (if y placedPiece > y space
         then [\<lparr>x = x space, y = y space, width = width space,
                height = y placedPiece - y space\<rparr>] else []) @
        (if y placedPiece + height placedPiece < y space + height space
         then [\<lparr>x = x space, y = y placedPiece + height placedPiece, width = width space,
                height = y space + height space - (y placedPiece + height placedPiece)\<rparr>] else [])
      else if y placedPiece < y space + height space \<and> y placedPiece + height placedPiece > y space then
        (if x placedPiece > x space
         then [\<lparr>x = x space, y = y space, width = x placedPiece - x space,
                height = height space\<rparr>] else []) @
        (if x placedPiece + width placedPiece < x space + width space
         then [\<lparr>x = x placedPiece + width placedPiece, y = y space,
                width = x space + width space - (x placedPiece + width placedPiece),
                height = height space\<rparr>] else [])
      else [space])"

definition ffdSplitSpace :: "Rectangle list \<Rightarrow> Rectangle \<Rightarrow> rat \<Rightarrow> rat \<Rightarrow> rat \<Rightarrow> Rectangle list" where
  "ffdSplitSpace availableSpaces placedPiece originalWidth originalHeight kerf' =
     concat (map (ffdSplitOne placedPiece) availableSpaces)"

definition ffdPlaced :: "OptimizationPiece \<Rightarrow> Rectangle \<Rightarrow> bool \<Rightarrow> nat \<Rightarrow> PlacedPiece" where
  "ffdPlaced piece fit rot i =
     \<lparr>pp_id = piece_id piece, pp_x = x fit, pp_y = y fit, pp_width = width fit,
      pp_height = height fit, rotated = rot, sheetNumber = i, pp_label = piece_label piece\<rparr>"

definition emptySheet :: "OptimizationPanel \<Rightarrow> 'p Sheet" where
  "emptySheet panel =
     \<lparr>sheet_placedPieces = [],
      availableSpace = [\<lparr>x = 0, y = 0, width = panel_width panel, height = panel_height panel\<rparr>]\<rparr>"

text \<open>The loop \<open>for (let i = 0; i < sheets.length; i++)\<close> over the open sheets; the
  result is the updated sheets and the flag \<open>placed\<close>.\<close>

fun ffdTryExisting ::
  "OptimizationPiece \<Rightarrow> OptimizationSettings \<Rightarrow> nat \<Rightarrow> PlacedPiece Sheet list \<Rightarrow> PlacedPiece Sheet list \<times> bool" where
  "ffdTryExisting piece settings i [] = ([], False)"
| "ffdTryExisting piece settings i (sheet # rest) =
     (case findBestFit piece (availableSpace sheet) False of
        Some bestFit \<Rightarrow>
          (sheet\<lparr>sheet_placedPieces := sheet_placedPieces sheet @ [ffdPlaced piece bestFit False i],
                 availableSpace := ffdSplitSpace (availableSpace sheet) bestFit
                    (piece_width piece) (piece_height piece) (kerf settings)\<rparr> # rest, True)
      | None \<Rightarrow>
          (case (if canRotate piece = Some True
                 then findBestFit piece (availableSpace sheet) True else None) of
             Some bestFitRotated \<Rightarrow>
               (sheet\<lparr>sheet_placedPieces := sheet_placedPieces sheet @ [ffdPlaced piece bestFitRotated True i],
                      availableSpace := ffdSplitSpace (availableSpace sheet) bestFitRotated
                         (piece_height piece) (piece_width piece) (kerf settings)\<rparr> # rest, True)
           | None \<Rightarrow>
               (let (rest', placed) = ffdTryExisting piece settings (Suc i) rest
                in (sheet # rest', placed))))"

definition ffdPlacePiece ::
  "OptimizationPanel \<Rightarrow> OptimizationSettings \<Rightarrow> PlacedPiece Sheet list \<Rightarrow> OptimizationPiece \<Rightarrow> PlacedPiece Sheet list" where
  "ffdPlacePiece panel settings sheets piece =
     (let (sheets1, placed) = ffdTryExisting piece settings 0 sheets
      in if placed then sheets1
         else (let newSheet = emptySheet panel
               in case findBestFit piece (availableSpace newSheet) False of
                    Some bestFit \<Rightarrow>
                      sheets1 @
                      [newSheet\<lparr>sheet_placedPieces := [ffdPlaced piece bestFit False (length sheets1)],
                                availableSpace := ffdSplitSpace (availableSpace newSheet) bestFit
                                   (piece_width piece) (piece_height piece) (kerf settings)\<rparr>]
                  | None \<Rightarrow> sheets1))"

definition compareArea :: "OptimizationPiece \<Rightarrow> OptimizationPiece \<Rightarrow> rat" where
  "compareArea a b = (piece_width b * piece_height b) - (piece_width a * piece_height a)"

definition placedArea :: "PlacedPiece list \<Rightarrow> rat" where
  "placedArea ps = foldl (\<lambda>sum' piece. sum' + pp_width piece * pp_height piece) 0 ps"

definition isPlaced :: "PlacedPiece list \<Rightarrow> OptimizationPiece \<Rightarrow> bool" where
  "isPlaced allPlacedPieces piece = list_ex (\<lambda>placed. pp_id placed = piece_id piece) allPlacedPieces"

definition ffdSheets ::
  "OptimizationPiece list \<Rightarrow> OptimizationPanel \<Rightarrow> OptimizationSettings \<Rightarrow> PlacedPiece Sheet list" where
  "ffdSheets pieces panel settings =
     foldl (ffdPlacePiece panel settings) [emptySheet panel] (sortWith compareArea pieces)"

definition ffdRunOptimization ::
  "OptimizationPiece list \<Rightarrow> OptimizationPanel \<Rightarrow> OptimizationSettings \<Rightarrow> AlgorithmResult" where
  "ffdRunOptimization pieces panel settings =
     (let sheets = ffdSheets pieces panel settings;
          allPlacedPieces = concat (map sheet_placedPieces sheets);
          unused = filter (\<lambda>piece. \<not> isPlaced allPlacedPieces piece) pieces;
          total = panel_width panel * panel_height panel * of_nat (length sheets);
          used = placedArea allPlacedPieces
      in \<lparr>placedPieces = allPlacedPieces, unusedPieces = unused, efficiency = used / total,
          totalArea = total, usedArea = used, wastedArea = total - used,
          sheetCount = int (length sheets), algorithm = []\<rparr>)"

definition ffdExecute ::
  "OptimizationPiece list \<Rightarrow> OptimizationPanel list \<Rightarrow> OptimizationSettings \<Rightarrow> error + AlgorithmResult" where
  "ffdExecute pieces panels settings =
     (case panels of
        [] \<Rightarrow> Inl (Error ''No panels provided'')
      | panel # _ \<Rightarrow>
          Inr ((ffdRunOptimization (sortPiecesByPriority (expandPieces pieces)) panel settings)
                 \<lparr>algorithm := ''first_fit_decreasing''\<rparr>))"

section \<open>Beam-Search-Guillotine (src/lib/algorithms/beam-search-guillotine.ts)\<close>

text \<open>
  A beam node refers to its array of remaining pieces. The expansion of a node creates
  one array \<open>unplacedPieces = node.pieces.slice(1)\<close>, hands that same array to every child
  of the node, and pushes onto it after the children are built. To keep this sharing
  visible, the arrays live in a store and a node holds the address of its array.
\<close>

record ArrayStore =
  arrays :: "nat \<Rightarrow> OptimizationPiece list"
  nextArray :: nat

definition newArray :: "OptimizationPiece list \<Rightarrow> ArrayStore \<Rightarrow> nat \<times> ArrayStore" where
  "newArray ps store =
     (nextArray store,
      store\<lparr>arrays := (arrays store)(nextArray store := ps), nextArray := Suc (nextArray store)\<rparr>)"

definition pushArray :: "nat \<Rightarrow> OptimizationPiece \<Rightarrow> ArrayStore \<Rightarrow> ArrayStore" where
  "pushArray a p store = store\<lparr>arrays := (arrays store)(a := arrays store a @ [p])\<rparr>"

record BeamNode =
  node_placedPieces :: "PlacedPiece list"
  node_availableSpaces :: "Rectangle list"
  node_pieces :: nat
  score :: rat

definition canPlacePiece :: "OptimizationPiece \<Rightarrow> Rectangle \<Rightarrow> bool \<Rightarrow> bool" where
  "canPlacePiece piece space rot =
     (let pieceWidth = (if rot then piece_height piece else piece_width piece);
          pieceHeight = (if rot then piece_width piece else piece_height piece)
      in pieceWidth \<le> width space \<and> pieceHeight \<le> height space)"

definition placePiece :: "OptimizationPiece \<Rightarrow> Rectangle \<Rightarrow> bool \<Rightarrow> nat \<Rightarrow> PlacedPiece" where
  "placePiece piece space rot sheetNumber' =
     \<lparr>pp_id = piece_id piece, pp_x = x space, pp_y = y space,
      pp_width = (if rot then piece_height piece else piece_width piece),
      pp_height = (if rot then piece_width piece else piece_height piece),
      rotated = rot, sheetNumber = sheetNumber', pp_label = piece_label piece\<rparr>"

definition calculateEfficiency1 :: "PlacedPiece \<Rightarrow> rat" where
  "calculateEfficiency1 placedPiece = pp_width placedPiece * pp_height placedPiece"

text \<open>The children that one free rectangle contributes: the unrotated placement, then
  the rotated one. The private \<open>splitSpace\<close> of this class is the text of the shared
  \<open>splitSpace\<close>, and is called with the whole free rectangle as the used space.\<close>

definition beamChildren ::
  "OptimizationSettings \<Rightarrow> BeamNode \<Rightarrow> OptimizationPiece \<Rightarrow> nat \<Rightarrow> Rectangle \<Rightarrow> BeamNode list" where
  "beamChildren settings node piece unplacedPieces space =
     (if canPlacePiece piece space False then
        (let placement = placePiece piece space False 0;
             newSpaces = splitSpace (node_availableSpaces node) space
                           (piece_width piece) (piece_height piece) (kerf settings)
         in [\<lparr>node_placedPieces = node_placedPieces node @ [placement],
               node_availableSpaces = newSpaces, node_pieces = unplacedPieces,
               score = score node + calculateEfficiency1 placement\<rparr>])
      else []) @
     (if canRotate piece = Some True \<and> canPlacePiece piece space True then
        (let placement = placePiece piece space True 0;
             newSpaces = splitSpace (node_availableSpaces node) space
                           (piece_height piece) (piece_width piece) (kerf settings)
         in [\<lparr>node_placedPieces = node_placedPieces node @ [placement],
               node_availableSpaces = newSpaces, node_pieces = unplacedPieces,
               score = score node + calculateEfficiency1 placement\<rparr>])
      else [])"

text \<open>The body of \<open>for (const node of beam)\<close>: the store and \<open>newBeam\<close> go in and come
  out. A node without pieces is skipped. The last step is the unconditional
  \<open>unplacedPieces.push(node.pieces[0])\<close>: its guard \<open>node.pieces.length > 0 && node.pieces[0]\<close>
  holds whenever the line is reached.\<close>

definition expandNode ::
  "OptimizationSettings \<Rightarrow> ArrayStore \<times> BeamNode list \<Rightarrow> BeamNode \<Rightarrow> ArrayStore \<times> BeamNode list" where
  "expandNode settings acc node =
     (let (store, newBeam) = acc
      in case arrays store (node_pieces node) of
           [] \<Rightarrow> (store, newBeam)
         | piece # rest \<Rightarrow>
             (let (unplacedPieces, store1) = newArray rest store;
                  children = concat (map (beamChildren settings node piece unplacedPieces)
                                         (node_availableSpaces node));
                  store2 = pushArray unplacedPieces piece store1
              in (store2, newBeam @ children)))"

definition compareScore :: "BeamNode \<Rightarrow> BeamNode \<Rightarrow> rat" where
  "compareScore a b = score b - score a"

definition beamWidth :: nat where
  "beamWidth = 10"

text \<open>The loop \<open>for (depth = 0; depth < maxDepth && beam.length > 0; depth++)\<close>, by the
  number of depths still to run.\<close>

fun beamLoop :: "OptimizationSettings \<Rightarrow> nat \<Rightarrow> ArrayStore \<Rightarrow> BeamNode list \<Rightarrow> ArrayStore \<times> BeamNode list" where
  "beamLoop settings 0 store beam = (store, beam)"
| "beamLoop settings (Suc n) store beam =
     (if beam = [] then (store, beam)
      else (let (store1, newBeam) = foldl (expandNode settings) (store, []) beam
            in beamLoop settings n store1 (take beamWidth (sortWith compareScore newBeam))))"

definition emptyStore :: ArrayStore where
  "emptyStore = \<lparr>arrays = (\<lambda>_. []), nextArray = 0\<rparr>"

definition beamRunOptimization ::
  "OptimizationPiece list \<Rightarrow> OptimizationPanel \<Rightarrow> OptimizationSettings \<Rightarrow> error + AlgorithmResult" where
  "beamRunOptimization pieces panel settings =
     (let (a, store0) = newArray pieces emptyStore;
          initialNode = \<lparr>node_placedPieces = [],
                         node_availableSpaces = [\<lparr>x = 0, y = 0, width = panel_width panel,
                                                  height = panel_height panel\<rparr>],
                         node_pieces = a, score = 0\<rparr>;
          (store, beam) = beamLoop settings (length pieces) store0 [initialNode]
      in case beam of
           [] \<Rightarrow> Inl (Error ''No valid solution found'')
         | bestNode # _ \<Rightarrow>
             (let total = panel_width panel * panel_height panel;
                  used = placedArea (node_placedPieces bestNode)
              in Inr \<lparr>placedPieces = node_placedPieces bestNode,
                      unusedPieces = arrays store (node_pieces bestNode),
                      efficiency = used / total, totalArea = total, usedArea = used,
                      wastedArea = total - used, sheetCount = 1, algorithm = []\<rparr>))"

definition beamExecute ::
  "OptimizationPiece list \<Rightarrow> OptimizationPanel list \<Rightarrow> OptimizationSettings \<Rightarrow> error + AlgorithmResult" where
  "beamExecute pieces panels settings =
     (case panels of
        [] \<Rightarrow> Inl (Error ''No panels provided'')
      | panel # _ \<Rightarrow>
          (case beamRunOptimization (sortPiecesByPriority (expandPieces pieces)) panel settings of
             Inl e \<Rightarrow> Inl e
           | Inr result \<Rightarrow> Inr (result\<lparr>algorithm := ''beam_search_guillotine''\<rparr>)))"

section \<open>Hybrid-Constructive-Local-Search (src/unnamed/part\_001)\<close>

text \<open>
  The local search writes to the \<open>x\<close> and \<open>y\<close> of placed pieces through a second array
  that holds the same objects. Placed pieces are therefore objects in a store, and a
  sheet of this strategy lists the addresses of its pieces.
\<close>

record ObjectStore =
  objects :: "nat \<Rightarrow> PlacedPiece"
  nextObject :: nat

definition newObject :: "PlacedPiece \<Rightarrow> ObjectStore \<Rightarrow> nat \<times> ObjectStore" where
  "newObject p store =
     (nextObject store,
      store\<lparr>objects := (objects store)(nextObject store := p), nextObject := Suc (nextObject store)\<rparr>)"

text \<open>\<open>[a.x, a.y] = [b.x, b.y]\<close>: both values are read, then both are written.\<close>

definition copyPosition :: "nat \<Rightarrow> nat \<Rightarrow> ObjectStore \<Rightarrow> ObjectStore" where
  "copyPosition a b store =
     (let bx = pp_x (objects store b); by = pp_y (objects store b)
      in store\<lparr>objects := (objects store)(a := (objects store a)\<lparr>pp_x := bx, pp_y := by\<rparr>)\<rparr>)"

record OptimizationState =
  sheets :: "nat Sheet list"
  currentSheet :: nat
  store :: ObjectStore

text \<open>Placing a piece on sheet \<open>i\<close> into the first free rectangle of that sheet; the free
  rectangle itself is passed to \<open>splitSpace\<close> as the used space, with kerf 0.\<close>

definition placeOnSheet :: "OptimizationState \<Rightarrow> OptimizationPiece \<Rightarrow> bool \<Rightarrow> nat \<Rightarrow> OptimizationState" where
  "placeOnSheet state piece rot i =
     (let sheet = sheets state ! i;
          space0 = hd (availableSpace sheet);
          (a, store1) = newObject (placePiece piece space0 rot i) (store state);
          sheet1 = sheet\<lparr>sheet_placedPieces := sheet_placedPieces sheet @ [a],
                        availableSpace := splitSpace (availableSpace sheet) space0
                           (if rot then piece_height piece else piece_width piece)
                           (if rot then piece_width piece else piece_height piece) 0\<rparr>
      in state\<lparr>sheets := (sheets state)[i := sheet1], store := store1\<rparr>)"

text \<open>The loop over the existing sheets, from index \<open>i\<close>; a sheet without a free rectangle
  is skipped.\<close>

function tryExistingSheets :: "OptimizationState \<Rightarrow> OptimizationPiece \<Rightarrow> nat \<Rightarrow> OptimizationState \<times> bool" where
  "tryExistingSheets state piece i =
     (if i < length (sheets state) then
        (case availableSpace (sheets state ! i) of
           [] \<Rightarrow> tryExistingSheets state piece (Suc i)
         | space0 # _ \<Rightarrow>
             if canPlacePiece piece space0 False then (placeOnSheet state piece False i, True)
             else if canRotate piece = Some True \<and> canPlacePiece piece space0 True
               then (placeOnSheet state piece True i, True)
             else tryExistingSheets state piece (Suc i))
      else (state, False))"
  by pat_completeness auto
termination
  by (relation "measure (\<lambda>(state, piece, i). length (sheets state) - i)") auto

text \<open>The new sheet is appended only when the piece fits it unrotated.\<close>

definition tryNewSheet :: "OptimizationState \<Rightarrow> OptimizationPiece \<Rightarrow> OptimizationPanel \<Rightarrow> OptimizationState" where
  "tryNewSheet state piece panel =
     (let newSheet = emptySheet panel
      in if canPlacePiece piece (hd (availableSpace newSheet)) False then
           placeOnSheet (state\<lparr>sheets := sheets state @ [newSheet]\<rparr>) piece False (length (sheets state))
         else state)"

text \<open>One iteration of the loop of \<open>constructivePlacement\<close>. When the current sheet has
  no free rectangle the source executes \<open>continue\<close>: the piece is dropped and the state is
  left as it is.\<close>

definition constructiveStep :: "OptimizationPanel \<Rightarrow> OptimizationState \<Rightarrow> OptimizationPiece \<Rightarrow> OptimizationState" where
  "constructiveStep panel state piece =
     (if currentSheet state < length (sheets state) then
        (case availableSpace (sheets state ! currentSheet state) of
           [] \<Rightarrow> state
         | space0 # _ \<Rightarrow>
             if canPlacePiece piece space0 False then placeOnSheet state piece False (currentSheet state)
             else if canRotate piece = Some True \<and> canPlacePiece piece space0 True
               then placeOnSheet state piece True (currentSheet state)
             else (let (state1, placed) = tryExistingSheets state piece 0
                   in if placed then state1 else tryNewSheet state1 piece panel))
      else (let (state1, placed) = tryExistingSheets state piece 0
            in if placed then state1 else tryNewSheet state1 piece panel))"

definition constructivePlacement ::
  "OptimizationState \<Rightarrow> OptimizationPiece list \<Rightarrow> OptimizationPanel \<Rightarrow> OptimizationState" where
  "constructivePlacement state pieces panel = foldl (constructiveStep panel) state pieces"

definition sheetsEfficiency :: "ObjectStore \<Rightarrow> nat list list \<Rightarrow> OptimizationPanel \<Rightarrow> rat" where
  "sheetsEfficiency st placedLists panel =
     (if placedLists = [] then 0
      else (let total = panel_width panel * panel_height panel * of_nat (length placedLists);
                used = foldl (\<lambda>sum' refs. sum' + placedArea (map (objects st) refs)) 0 placedLists
            in used / total))"

text \<open>
  The body of the innermost loop, for sheets \<open>i < j\<close> and piece indices \<open>k\<close>, \<open>l\<close>.
  \<open>newPlacements\<close> is a new array of the same objects, so the tentative exchange writes to
  the pieces of the sheets; its second index is \<open>k + sheet1.placedPieces.length\<close>. The
  result is the store and the flag \<open>improved\<close>.
\<close>

definition swapStep ::
  "nat Sheet list \<Rightarrow> OptimizationPanel \<Rightarrow> nat \<times> nat \<times> nat \<times> nat \<Rightarrow> ObjectStore \<times> bool \<Rightarrow> ObjectStore \<times> bool" where
  "swapStep shs panel idx acc =
     (let (i, j, k, l) = idx;
          (st, improved) = acc;
          refs1 = sheet_placedPieces (shs ! i);
          refs2 = sheet_placedPieces (shs ! j);
          piece1 = refs1 ! k;
          piece2 = refs2 ! l;
          currentEfficiency = sheetsEfficiency st [refs1, refs2] panel;
          newPlacements = refs1 @ refs2;
          piece1Index = k;
          piece2Index = k + length refs1;
          st1 = (if piece1Index < length newPlacements \<and> piece2Index < length newPlacements
                 then copyPosition (newPlacements ! piece2Index) (newPlacements ! piece1Index)
                        (copyPosition (newPlacements ! piece1Index) (newPlacements ! piece2Index) st)
                 else st);
          newEfficiency = sheetsEfficiency st1
             [take (length refs1) newPlacements, drop (length refs1) newPlacements] panel
      in if newEfficiency > currentEfficiency
         then (copyPosition piece2 piece1 (copyPosition piece1 piece2 st1), True)
         else (st1, improved))"

definition swapIndices :: "nat Sheet list \<Rightarrow> (nat \<times> nat \<times> nat \<times> nat) list" where
  "swapIndices shs =
     concat (map (\<lambda>i. concat (map (\<lambda>j. concat (map (\<lambda>k. map (\<lambda>l. (i, j, k, l))
         [0..<length (sheet_placedPieces (shs ! j))])
         [0..<length (sheet_placedPieces (shs ! i))]))
         [Suc i..<length shs]))
         [0..<length shs])"

text \<open>One pass of the \<open>while\<close> loop: \<open>improved = false\<close>, then the four nested loops.\<close>

definition localSearchPass :: "OptimizationState \<Rightarrow> OptimizationPanel \<Rightarrow> OptimizationState \<times> bool" where
  "localSearchPass state panel =
     (let (st, improved) = fold (swapStep (sheets state) panel) (swapIndices (sheets state))
                                (store state, False)
      in (state\<lparr>store := st\<rparr>, improved))"

function localSearchLoop :: "OptimizationState \<Rightarrow> OptimizationPanel \<Rightarrow> bool \<Rightarrow> nat \<Rightarrow> OptimizationState" where
  "localSearchLoop state panel improved iterations =
     (if improved \<and> iterations < 100 then
        (let (state1, improved1) = localSearchPass state panel
         in localSearchLoop state1 panel improved1 (Suc iterations))
      else state)"
  by pat_completeness auto
termination
  by (relation "measure (\<lambda>(state, panel, improved, iterations). 100 - iterations)") auto

definition localSearchImprovement :: "OptimizationState \<Rightarrow> OptimizationPanel \<Rightarrow> OptimizationState" where
  "localSearchImprovement state panel = localSearchLoop state panel True 0"

definition emptyObjects :: ObjectStore where
  "emptyObjects =
     \<lparr>objects = (\<lambda>_. \<lparr>pp_id = [], pp_x = 0, pp_y = 0, pp_width = 0, pp_height = 0,
                      rotated = False, sheetNumber = 0, pp_label = None\<rparr>),
      nextObject = 0\<rparr>"

definition initialState :: "OptimizationPanel \<Rightarrow> OptimizationState" where
  "initialState panel = \<lparr>sheets = [emptySheet panel], currentSheet = 0, store = emptyObjects\<rparr>"

definition statePlacedPieces :: "OptimizationState \<Rightarrow> PlacedPiece list" where
  "statePlacedPieces state =
     concat (map (\<lambda>sheet. map (objects (store state)) (sheet_placedPieces sheet)) (sheets state))"

definition hybridFinalState :: "OptimizationPiece list \<Rightarrow> OptimizationPanel \<Rightarrow> OptimizationState" where
  "hybridFinalState pieces panel =
     localSearchImprovement (constructivePlacement (initialState panel) pieces panel) panel"

definition hybridRunOptimization ::
  "OptimizationPiece list \<Rightarrow> OptimizationPanel \<Rightarrow> OptimizationSettings \<Rightarrow> AlgorithmResult" where
  "hybridRunOptimization pieces panel settings =
     (let state = hybridFinalState pieces panel;
          allPlacedPieces = statePlacedPieces state;
          unused = filter (\<lambda>piece. \<not> isPlaced allPlacedPieces piece) pieces;
          total = panel_width panel * panel_height panel * of_nat (length (sheets state));
          used = placedArea allPlacedPieces
      in \<lparr>placedPieces = allPlacedPieces, unusedPieces = unused, efficiency = used / total,
          totalArea = total, usedArea = used, wastedArea = total - used,
          sheetCount = int (length (sheets state)), algorithm = []\<rparr>)"

definition hybridExecute ::
  "OptimizationPiece list \<Rightarrow> OptimizationPanel list \<Rightarrow> OptimizationSettings \<Rightarrow> error + AlgorithmResult" where
  "hybridExecute pieces panels settings =
     (case panels of
        [] \<Rightarrow> Inl (Error ''No panels provided'')
      | panel # _ \<Rightarrow>
          Inr ((hybridRunOptimization pieces panel settings)
                 \<lparr>algorithm := ''hybrid_constructive_local_search''\<rparr>))"

section \<open>Genetic search (src/lib/algorithms/advanced-genetic-algorithm.ts)\<close>

text \<open>
  \<open>Math.random()\<close> is ambient in the source. Here the random source is a parameter
  \<open>rng\<close>: the \<open>n\<close>-th call of \<open>Math.random()\<close> in a run returns \<open>rng n\<close>, a number that
  the language promises to lie in \<open>[0, 1)\<close>. The state of a run is the store of piece
  objects (mutation writes to pieces that parents and children share) and the number of
  random numbers drawn so far. The arrays of placements are never written while shared,
  so an individual holds its list of addresses as a value.
\<close>

record GeneticIndividual =
  placements :: "nat list"
  fitness :: rat
  ind_sheetCount :: int
  ind_efficiency :: rat

record GeneticState =
  pieceStore :: ObjectStore
  randomCalls :: nat

definition nextRandom :: "(nat \<Rightarrow> rat) \<Rightarrow> GeneticState \<Rightarrow> rat \<times> GeneticState" where
  "nextRandom rng gs = (rng (randomCalls gs), gs\<lparr>randomCalls := Suc (randomCalls gs)\<rparr>)"

text \<open>\<open>Math.floor(Math.random() * n)\<close> as an array index.\<close>

definition randomIndex :: "(nat \<Rightarrow> rat) \<Rightarrow> nat \<Rightarrow> GeneticState \<Rightarrow> nat \<times> GeneticState" where
  "randomIndex rng n gs =
     (let (r, gs1) = nextRandom rng gs in (nat \<lfloor>r * of_nat n\<rfloor>, gs1))"

definition populationSize :: nat where
  "populationSize = 50"

definition generations :: nat where
  "generations = 100"

text \<open>\<open>tryPlacePiece\<close> returns \<open>false\<close> and changes nothing (\<open>None\<close>), or pushes the
  placement, replaces the free rectangle at \<open>spaceIndex\<close> by what \<open>splitSpace\<close> leaves of
  it, and returns \<open>true\<close>. The placed piece has sheet number 0 and no label.\<close>

definition tryPlacePiece ::
  "OptimizationPiece \<Rightarrow> Rectangle \<Rightarrow> bool \<Rightarrow> OptimizationSettings \<Rightarrow>
   nat list \<times> Rectangle list \<times> GeneticState \<Rightarrow> nat \<Rightarrow> (nat list \<times> Rectangle list \<times> GeneticState) option" where
  "tryPlacePiece piece space rot settings acc spaceIndex =
     (let (placements', availableSpaces, gs) = acc;
          pieceHeight = (if rot then piece_width piece else piece_height piece);
          pieceWidth = (if rot then piece_height piece else piece_width piece)
      in if pieceHeight \<le> height space \<and> pieceWidth \<le> width space then
           (let (a, st1) = newObject
                  \<lparr>pp_id = piece_id piece, pp_x = x space, pp_y = y space, pp_width = pieceWidth,
                   pp_height = pieceHeight, rotated = rot, sheetNumber = 0, pp_label = None\<rparr>
                  (pieceStore gs);
                newSpaces = splitSpace [space] space pieceWidth pieceHeight (kerf settings)
            in Some (placements' @ [a],
                     take spaceIndex availableSpaces @ newSpaces @ drop (Suc spaceIndex) availableSpaces,
                     gs\<lparr>pieceStore := st1\<rparr>))
         else None)"

text \<open>The loop \<open>while (!placed && spaceIndex < availableSpaces.length)\<close>; a random number
  is drawn in an iteration only when the piece may rotate.\<close>

function scanSpaces ::
  "(nat \<Rightarrow> rat) \<Rightarrow> OptimizationPiece \<Rightarrow> OptimizationSettings \<Rightarrow>
   nat list \<Rightarrow> Rectangle list \<Rightarrow> GeneticState \<Rightarrow> nat \<Rightarrow> bool \<times> nat list \<times> Rectangle list \<times> GeneticState" where
  "scanSpaces rng piece settings placements' availableSpaces gs spaceIndex =
     (if spaceIndex < length availableSpaces then
        (let space = availableSpaces ! spaceIndex;
             (rot, gs1) = (if canRotate piece = Some True
                           then (let (r, gs') = nextRandom rng gs in (r > 1 / 2, gs'))
                           else (False, gs))
         in case tryPlacePiece piece space rot settings (placements', availableSpaces, gs1) spaceIndex of
              Some acc \<Rightarrow> (True, acc)
            | None \<Rightarrow> scanSpaces rng piece settings placements' availableSpaces gs1 (Suc spaceIndex))
      else (False, placements', availableSpaces, gs))"
  by pat_completeness auto
termination
  by (relation "measure (\<lambda>(rng, piece, settings, placements', availableSpaces, gs, spaceIndex).
        length availableSpaces - spaceIndex)") auto

definition createStep ::
  "(nat \<Rightarrow> rat) \<Rightarrow> OptimizationPanel \<Rightarrow> OptimizationSettings \<Rightarrow>
   nat list \<times> Rectangle list \<times> GeneticState \<Rightarrow> OptimizationPiece \<Rightarrow> nat list \<times> Rectangle list \<times> GeneticState" where
  "createStep rng panel settings acc piece =
     (let (placements', availableSpaces, gs) = acc;
          (placed, acc1) = scanSpaces rng piece settings placements' availableSpaces gs 0
      in if placed then acc1
         else (let newSheet = \<lparr>x = 0, y = 0, width = panel_width panel, height = panel_height panel\<rparr>
               in case tryPlacePiece piece newSheet False settings acc1 (length (fst (snd acc1))) of
                    Some acc2 \<Rightarrow> acc2
                  | None \<Rightarrow> acc1))"

definition createRandomPlacement ::
  "(nat \<Rightarrow> rat) \<Rightarrow> OptimizationPiece list \<Rightarrow> OptimizationPanel \<Rightarrow> OptimizationSettings \<Rightarrow>
   GeneticState \<Rightarrow> nat list \<times> GeneticState" where
  "createRandomPlacement rng pieces panel settings gs =
     (let (placements', availableSpaces, gs1) =
            foldl (createStep rng panel settings)
              ([], [\<lparr>x = 0, y = 0, width = panel_width panel, height = panel_height panel\<rparr>], gs) pieces
      in (placements', gs1))"

definition evaluateIndividual :: "ObjectStore \<Rightarrow> nat list \<Rightarrow> OptimizationPanel \<Rightarrow> GeneticIndividual" where
  "evaluateIndividual st placements' panel =
     (if placements' = [] then
        \<lparr>placements = [], fitness = 0, ind_sheetCount = 0, ind_efficiency = 0\<rparr>
      else (let total = panel_height panel * panel_width panel;
                used = foldl (\<lambda>sum' piece. sum' + pp_height piece * pp_width piece) 0
                         (map (objects st) placements');
                eff = used / total;
                count = \<lceil>used / total\<rceil>;
                fit = eff * (8 / 10) + (1 / of_int count) * (2 / 10)
            in \<lparr>placements = placements', fitness = fit, ind_sheetCount = count,
                ind_efficiency = eff\<rparr>))"

fun initializeLoop ::
  "(nat \<Rightarrow> rat) \<Rightarrow> OptimizationPiece list \<Rightarrow> OptimizationPanel \<Rightarrow> OptimizationSettings \<Rightarrow>
   nat \<Rightarrow> GeneticIndividual list \<Rightarrow> GeneticState \<Rightarrow> GeneticIndividual list \<times> GeneticState" where
  "initializeLoop rng pieces panel settings 0 population gs = (population, gs)"
| "initializeLoop rng pieces panel settings (Suc n) population gs =
     (let (placements', gs1) = createRandomPlacement rng pieces panel settings gs;
          individual = evaluateIndividual (pieceStore gs1) placements' panel
      in initializeLoop rng pieces panel settings n (population @ [individual]) gs1)"

definition initializePopulation ::
  "(nat \<Rightarrow> rat) \<Rightarrow> OptimizationPiece list \<Rightarrow> OptimizationPanel \<Rightarrow> OptimizationSettings \<Rightarrow>
   GeneticState \<Rightarrow> GeneticIndividual list \<times> GeneticState" where
  "initializePopulation rng pieces panel settings gs =
     initializeLoop rng pieces panel settings populationSize [] gs"

text \<open>Tournament selection: three draws; a draw outside the array gives \<open>undefined\<close> and
  is passed over.\<close>

fun tournament ::
  "(nat \<Rightarrow> rat) \<Rightarrow> GeneticIndividual list \<Rightarrow> nat \<Rightarrow> GeneticIndividual option \<Rightarrow> GeneticState \<Rightarrow>
   GeneticIndividual option \<times> GeneticState" where
  "tournament rng population 0 best gs = (best, gs)"
| "tournament rng population (Suc n) best gs =
     (let (i, gs1) = randomIndex rng (length population) gs;
          best1 = (if i < length population \<and>
                      (case best of None \<Rightarrow> True
                       | Some b \<Rightarrow> fitness (population ! i) > fitness b)
                   then Some (population ! i) else best)
      in tournament rng population n best1 gs1)"

definition selectParent ::
  "(nat \<Rightarrow> rat) \<Rightarrow> GeneticIndividual list \<Rightarrow> GeneticState \<Rightarrow> error + (GeneticIndividual \<times> GeneticState)" where
  "selectParent rng population gs =
     (case tournament rng population 3 None gs of
        (None, gs1) \<Rightarrow> Inl (Error ''Failed to select parent'')
      | (Some best, gs1) \<Rightarrow> Inr (best, gs1))"

text \<open>The key of \<open>removeDuplicatePlacements\<close> is the string
  \<open>id-x-y-rotated\<close>; it is modelled by the tuple of the four values.\<close>

fun removeDuplicateLoop ::
  "ObjectStore \<Rightarrow> (string \<times> rat \<times> rat \<times> bool) list \<Rightarrow> nat list \<Rightarrow> nat list" where
  "removeDuplicateLoop st seen [] = []"
| "removeDuplicateLoop st seen (a # as) =
     (let piece = objects st a;
          key = (pp_id piece, pp_x piece, pp_y piece, rotated piece)
      in if key \<in> set seen then removeDuplicateLoop st seen as
         else a # removeDuplicateLoop st (key # seen) as)"

definition removeDuplicatePlacements :: "ObjectStore \<Rightarrow> nat list \<Rightarrow> nat list" where
  "removeDuplicatePlacements st placements' = removeDuplicateLoop st [] placements'"

definition piecesOverlap :: "PlacedPiece \<Rightarrow> PlacedPiece \<Rightarrow> bool" where
  "piecesOverlap piece1 piece2 \<longleftrightarrow>
     \<not> (pp_x piece1 + pp_width piece1 \<le> pp_x piece2 \<or>
        pp_x piece2 + pp_width piece2 \<le> pp_x piece1 \<or>
        pp_y piece1 + pp_height piece1 \<le> pp_y piece2 \<or>
        pp_y piece2 + pp_height piece2 \<le> pp_y piece1)"

text \<open>The bounds test of the source, as written: its fourth disjunct is
  \<open>piece.y + piece.width > panel.width\<close>.\<close>

fun validateLoop :: "ObjectStore \<Rightarrow> OptimizationPanel \<Rightarrow> nat list \<Rightarrow> nat list \<Rightarrow> nat list" where
  "validateLoop st panel validPlacements [] = validPlacements"
| "validateLoop st panel validPlacements (a # as) =
     (let piece = objects st a
      in if pp_x piece < 0 \<or> pp_y piece < 0 \<or>
            pp_x piece + pp_width piece > panel_width panel \<or>
            pp_y piece + pp_width piece > panel_width panel
         then validateLoop st panel validPlacements as
         else if list_ex (\<lambda>other. piecesOverlap piece (objects st other)) validPlacements
         then validateLoop st panel validPlacements as
         else validateLoop st panel (validPlacements @ [a]) as)"

definition validatePlacements :: "ObjectStore \<Rightarrow> nat list \<Rightarrow> OptimizationPanel \<Rightarrow> nat list" where
  "validatePlacements st placements' panel = validateLoop st panel [] placements'"

definition crossover ::
  "(nat \<Rightarrow> rat) \<Rightarrow> GeneticIndividual \<Rightarrow> GeneticIndividual \<Rightarrow> OptimizationPanel \<Rightarrow> GeneticState \<Rightarrow>
   GeneticIndividual \<times> GeneticState" where
  "crossover rng parent1 parent2 panel gs =
     (let (crossoverPoint, gs1) = randomIndex rng (length (placements parent1)) gs;
          childPlacements = take crossoverPoint (placements parent1) @
                            drop crossoverPoint (placements parent2);
          uniquePlacements = removeDuplicatePlacements (pieceStore gs1) childPlacements;
          validPlacements = validatePlacements (pieceStore gs1) uniquePlacements panel
      in (evaluateIndividual (pieceStore gs1) validPlacements panel, gs1))"

text \<open>Mutation. The swap exchanges two entries of the child's own array; the rotation
  and position mutations write to the piece objects.\<close>

definition swapMutation :: "(nat \<Rightarrow> rat) \<Rightarrow> nat list \<Rightarrow> GeneticState \<Rightarrow> nat list \<times> GeneticState" where
  "swapMutation rng placements' gs =
     (if length placements' > 1 then
        (let (r, gs1) = nextRandom rng gs
         in if r < 3 / 10 then
              (let (i, gs2) = randomIndex rng (length placements') gs1;
                   (j, gs3) = randomIndex rng (length placements') gs2
               in if i \<noteq> j \<and> i < length placements' \<and> j < length placements'
                  then (placements'[i := placements' ! j, j := placements' ! i], gs3)
                  else (placements', gs3))
            else (placements', gs1))
      else (placements', gs))"

definition updateObject :: "nat \<Rightarrow> (PlacedPiece \<Rightarrow> PlacedPiece) \<Rightarrow> GeneticState \<Rightarrow> GeneticState" where
  "updateObject a f gs =
     gs\<lparr>pieceStore := (pieceStore gs)\<lparr>objects := (objects (pieceStore gs))(a := f (objects (pieceStore gs) a))\<rparr>\<rparr>"

fun rotationMutation :: "(nat \<Rightarrow> rat) \<Rightarrow> nat list \<Rightarrow> GeneticState \<Rightarrow> GeneticState" where
  "rotationMutation rng [] gs = gs"
| "rotationMutation rng (a # as) gs =
     (let (r, gs1) = nextRandom rng gs;
          gs2 = (if r < 1 / 10
                 then updateObject a (\<lambda>piece. piece\<lparr>rotated := \<not> rotated piece,
                                                     pp_height := pp_width piece,
                                                     pp_width := pp_height piece\<rparr>) gs1
                 else gs1)
      in rotationMutation rng as gs2)"

fun positionMutation :: "(nat \<Rightarrow> rat) \<Rightarrow> nat list \<Rightarrow> GeneticState \<Rightarrow> GeneticState" where
  "positionMutation rng [] gs = gs"
| "positionMutation rng (a # as) gs =
     (let (r, gs1) = nextRandom rng gs;
          gs4 = (if r < 5 / 100
                 then (let (rx, gs2) = nextRandom rng gs1;
                           gs2' = updateObject a (\<lambda>piece. piece\<lparr>pp_x := max 0 (pp_x piece + (rx - 1 / 2) * 10)\<rparr>) gs2;
                           (ry, gs3) = nextRandom rng gs2'
                       in updateObject a (\<lambda>piece. piece\<lparr>pp_y := max 0 (pp_y piece + (ry - 1 / 2) * 10)\<rparr>) gs3)
                 else gs1)
      in positionMutation rng as gs4)"

definition mutate ::
  "(nat \<Rightarrow> rat) \<Rightarrow> GeneticIndividual \<Rightarrow> OptimizationPanel \<Rightarrow> GeneticState \<Rightarrow> GeneticIndividual \<times> GeneticState" where
  "mutate rng individual panel gs =
     (let (placements1, gs1) = swapMutation rng (placements individual) gs;
          gs2 = rotationMutation rng placements1 gs1;
          gs3 = positionMutation rng placements1 gs2;
          newEvaluation = evaluateIndividual (pieceStore gs3) placements1 panel
      in (individual\<lparr>placements := placements1, fitness := fitness newEvaluation,
                     ind_efficiency := ind_efficiency newEvaluation,
                     ind_sheetCount := ind_sheetCount newEvaluation\<rparr>, gs3))"

text \<open>The loop \<open>while (newPopulation.length < population.length)\<close> pushes one child in
  every iteration; it is written by the number of children still to make.\<close>

fun evolveLoop ::
  "(nat \<Rightarrow> rat) \<Rightarrow> GeneticIndividual list \<Rightarrow> OptimizationPanel \<Rightarrow> nat \<Rightarrow> GeneticIndividual list \<Rightarrow>
   GeneticState \<Rightarrow> error + (GeneticIndividual list \<times> GeneticState)" where
  "evolveLoop rng population panel 0 newPopulation gs = Inr (newPopulation, gs)"
| "evolveLoop rng population panel (Suc n) newPopulation gs =
     (case selectParent rng population gs of
        Inl e \<Rightarrow> Inl e
      | Inr (parent1, gs1) \<Rightarrow>
          (case selectParent rng population gs1 of
             Inl e \<Rightarrow> Inl e
           | Inr (parent2, gs2) \<Rightarrow>
               (let (child, gs3) = crossover rng parent1 parent2 panel gs2;
                    (child1, gs4) = mutate rng child panel gs3
                in evolveLoop rng population panel n (newPopulation @ [child1]) gs4)))"

text \<open>Elitism: \<open>reduce\<close> without an initial value keeps the first individual of the
  greatest fitness, and throws a TypeError on an empty array.\<close>

definition evolvePopulation ::
  "(nat \<Rightarrow> rat) \<Rightarrow> GeneticIndividual list \<Rightarrow> OptimizationPanel \<Rightarrow> GeneticState \<Rightarrow>
   error + (GeneticIndividual list \<times> GeneticState)" where
  "evolvePopulation rng population panel gs =
     (case population of
        [] \<Rightarrow> Inl (Error ''Reduce of empty array with no initial value'')
      | first # others \<Rightarrow>
          (let bestIndividual = foldl (\<lambda>best current. if fitness current > fitness best
                                                       then current else best) first others
           in evolveLoop rng population panel (length population - 1) [bestIndividual] gs))"

definition compareFitness :: "GeneticIndividual \<Rightarrow> GeneticIndividual \<Rightarrow> rat" where
  "compareFitness a b = fitness b - fitness a"

text \<open>The evolution loop, by the number of generations still to run. The \<open>break\<close> leaves
  the population evaluated and sorted.\<close>

fun evolutionLoop ::
  "(nat \<Rightarrow> rat) \<Rightarrow> OptimizationPanel \<Rightarrow> nat \<Rightarrow> GeneticIndividual list \<Rightarrow> GeneticState \<Rightarrow>
   error + (GeneticIndividual list \<times> GeneticState)" where
  "evolutionLoop rng panel 0 population gs = Inr (population, gs)"
| "evolutionLoop rng panel (Suc n) population gs =
     (let evaluated = map (\<lambda>individual. individual\<lparr>fitness :=
                              fitness (evaluateIndividual (pieceStore gs) (placements individual) panel)\<rparr>)
                          population;
          sorted' = sortWith compareFitness evaluated
      in if (case sorted' of [] \<Rightarrow> False | bestIndividual # _ \<Rightarrow> ind_efficiency bestIndividual > 95 / 100)
         then Inr (sorted', gs)
         else (case evolvePopulation rng sorted' panel gs of
                 Inl e \<Rightarrow> Inl e
               | Inr (population1, gs1) \<Rightarrow> evolutionLoop rng panel n population1 gs1))"

definition initialGeneticState :: GeneticState where
  "initialGeneticState = \<lparr>pieceStore = emptyObjects, randomCalls = 0\<rparr>"

definition geneticRunOptimization ::
  "(nat \<Rightarrow> rat) \<Rightarrow> OptimizationPiece list \<Rightarrow> OptimizationPanel list \<Rightarrow> OptimizationSettings \<Rightarrow>
   error + AlgorithmResult" where
  "geneticRunOptimization rng pieces panels settings =
     (case panels of
        [] \<Rightarrow> Inl (Error ''No panels provided for optimization'')
      | panel # _ \<Rightarrow>
          (let sortedPieces = sortPiecesByPriority (expandPieces pieces);
               (population, gs) = initializePopulation rng sortedPieces panel settings initialGeneticState
           in case evolutionLoop rng panel generations population gs of
                Inl e \<Rightarrow> Inl e
              | Inr ([], gs1) \<Rightarrow> Inl (Error ''Failed to generate valid solution'')
              | Inr (bestSolution # _, gs1) \<Rightarrow>
                  (let placed = map (objects (pieceStore gs1)) (placements bestSolution);
                       used = foldl (\<lambda>sum' piece. sum' + pp_height piece * pp_width piece) 0 placed
                   in Inr \<lparr>placedPieces = placed, unusedPieces = [],
                           efficiency = ind_efficiency bestSolution,
                           totalArea = panel_height panel * panel_width panel,
                           usedArea = used,
                           wastedArea = panel_height panel * panel_width panel - used,
                           sheetCount = ind_sheetCount bestSolution, algorithm = []\<rparr>)))"

definition geneticExecute ::
  "(nat \<Rightarrow> rat) \<Rightarrow> OptimizationPiece list \<Rightarrow> OptimizationPanel list \<Rightarrow> OptimizationSettings \<Rightarrow>
   error + AlgorithmResult" where
  "geneticExecute rng pieces panels settings =
     (case geneticRunOptimization rng pieces panels settings of
        Inl (Error message) \<Rightarrow> Inl (Error (''Advanced Genetic Algorithm failed: '' @ message))
      | Inr result \<Rightarrow> Inr (result\<lparr>algorithm := ''advanced_genetic_algorithm''\<rparr>))"

section \<open>The manager (src/lib/algorithms/algorithm-manager.ts)\<close>

record Algorithm =
  alg_name :: string
  supportsRotation :: bool
  supportsMultiSheet :: bool
  execute :: "OptimizationPiece list \<Rightarrow> OptimizationPanel list \<Rightarrow> OptimizationSettings \<Rightarrow> error + AlgorithmResult"

record OptimizationRequest =
  req_pieces :: "OptimizationPiece list"
  req_panels :: "OptimizationPanel list"
  req_settings :: OptimizationSettings

definition beamSearch :: Algorithm where
  "beamSearch = \<lparr>alg_name = ''beam_search_guillotine'', supportsRotation = True,
                 supportsMultiSheet = True, execute = beamExecute\<rparr>"

definition hybrid :: Algorithm where
  "hybrid = \<lparr>alg_name = ''hybrid_constructive_local_search'', supportsRotation = True,
             supportsMultiSheet = True, execute = hybridExecute\<rparr>"

definition firstFit :: Algorithm where
  "firstFit = \<lparr>alg_name = ''first_fit_decreasing'', supportsRotation = False,
               supportsMultiSheet = True, execute = ffdExecute\<rparr>"

definition genetic :: "(nat \<Rightarrow> rat) \<Rightarrow> Algorithm" where
  "genetic rng = \<lparr>alg_name = ''advanced_genetic_algorithm'', supportsRotation = True,
                  supportsMultiSheet = True, execute = geneticExecute rng\<rparr>"

text \<open>The registry after \<open>registerDefaultAlgorithms\<close>, and the priority order.\<close>

definition algorithms :: "(nat \<Rightarrow> rat) \<Rightarrow> string \<Rightarrow> Algorithm option" where
  "algorithms rng =
     map_of [(alg_name beamSearch, beamSearch), (alg_name hybrid, hybrid),
             (alg_name firstFit, firstFit), (alg_name (genetic rng), genetic rng)]"

definition algorithmPriority :: "string list" where
  "algorithmPriority = [alg_name beamSearch, alg_name hybrid, alg_name firstFit,
                        ''advanced_genetic_algorithm'']"

definition getDefaultAlgorithm :: "(nat \<Rightarrow> rat) \<Rightarrow> Algorithm option" where
  "getDefaultAlgorithm rng =
     (case algorithmPriority of [] \<Rightarrow> None
      | defaultName # _ \<Rightarrow> if defaultName = [] then None else algorithms rng defaultName)"

text \<open>The fallback loop over \<open>algorithmPriority.slice(1)\<close>: the first result wins, a
  failing strategy is passed over; \<open>None\<close> when every one failed.\<close>

fun fallbackLoop :: "(nat \<Rightarrow> rat) \<Rightarrow> OptimizationRequest \<Rightarrow> string list \<Rightarrow> AlgorithmResult option" where
  "fallbackLoop rng request [] = None"
| "fallbackLoop rng request (fallbackName # names) =
     (if fallbackName = [] then fallbackLoop rng request names
      else (case algorithms rng fallbackName of
              None \<Rightarrow> fallbackLoop rng request names
            | Some fallbackAlgorithm \<Rightarrow>
                (case execute fallbackAlgorithm (req_pieces request) (req_panels request)
                        (req_settings request) of
                   Inr result \<Rightarrow> Some result
                 | Inl fallbackError \<Rightarrow> fallbackLoop rng request names)))"

text \<open>\<open>executeWithFallback\<close>, as written: the resolved strategy is executed at once; no
  test of the request against \<open>supportsRotation\<close> or \<open>supportsMultiSheet\<close> is made.\<close>

definition executeWithFallback ::
  "(nat \<Rightarrow> rat) \<Rightarrow> OptimizationRequest \<Rightarrow> string option \<Rightarrow> error + AlgorithmResult" where
  "executeWithFallback rng request preferredAlgorithm =
     (let algorithm1 = (case preferredAlgorithm of
                          None \<Rightarrow> None
                        | Some name \<Rightarrow> if name = [] then None else algorithms rng name);
          algorithm2 = (case algorithm1 of None \<Rightarrow> getDefaultAlgorithm rng | Some a \<Rightarrow> Some a)
      in case algorithm2 of
           None \<Rightarrow> Inl (Error ''No algorithms available'')
         | Some algorithm' \<Rightarrow>
             (case execute algorithm' (req_pieces request) (req_panels request) (req_settings request) of
                Inr result \<Rightarrow> Inr result
              | Inl (Error message) \<Rightarrow>
                  (case fallbackLoop rng request (tl algorithmPriority) of
                     Some result \<Rightarrow> Inr result
                   | None \<Rightarrow> Inl (Error (''All algorithms failed. Last error: '' @ message)))))"

section \<open>Predicates and example data used in the statements\<close>

text \<open>A placed piece lies within the sheet \<open>[0, width] \<times> [0, height]\<close>.\<close>

definition inBounds :: "OptimizationPanel \<Rightarrow> PlacedPiece \<Rightarrow> bool" where
  "inBounds panel p \<longleftrightarrow>
     0 \<le> pp_x p \<and> pp_x p + pp_width p \<le> panel_width panel \<and>
     0 \<le> pp_y p \<and> pp_y p + pp_height p \<le> panel_height panel"

text \<open>Two placed pieces collide when they are on the same sheet and their rectangles
  overlap; a list of placed pieces is free of collisions when no two of its entries
  collide.\<close>

definition collide :: "PlacedPiece \<Rightarrow> PlacedPiece \<Rightarrow> bool" where
  "collide p q \<longleftrightarrow> sheetNumber p = sheetNumber q \<and> piecesOverlap p q"

fun noCollisions :: "PlacedPiece list \<Rightarrow> bool" where
  "noCollisions [] = True"
| "noCollisions (p # ps) = (\<not> list_ex (collide p) ps \<and> noCollisions ps)"

definition validPlacement :: "OptimizationPanel \<Rightarrow> PlacedPiece list \<Rightarrow> bool" where
  "validPlacement panel ps \<longleftrightarrow> list_all (inBounds panel) ps \<and> noCollisions ps"

definition plainPiece :: "string \<Rightarrow> rat \<Rightarrow> rat \<Rightarrow> int \<Rightarrow> OptimizationPiece" where
  "plainPiece name w h n =
     \<lparr>piece_id = name, piece_width = w, piece_height = h, quantity = n, piece_label = None,
      canRotate = None, mustFollowGrain = None, priority = None\<rparr>"

definition rotatablePiece :: "string \<Rightarrow> rat \<Rightarrow> rat \<Rightarrow> int \<Rightarrow> OptimizationPiece" where
  "rotatablePiece name w h n = (plainPiece name w h n)\<lparr>canRotate := Some True\<rparr>"

definition placedAt :: "string \<Rightarrow> rat \<Rightarrow> rat \<Rightarrow> rat \<Rightarrow> rat \<Rightarrow> nat \<Rightarrow> PlacedPiece" where
  "placedAt name px py w h sheet =
     \<lparr>pp_id = name, pp_x = px, pp_y = py, pp_width = w, pp_height = h, rotated = False,
      sheetNumber = sheet, pp_label = None\<rparr>"

definition panel10 :: OptimizationPanel where
  "panel10 = \<lparr>panel_width = 10, panel_height = 10\<rparr>"

definition panel100 :: OptimizationPanel where
  "panel100 = \<lparr>panel_width = 100, panel_height = 100\<rparr>"

definition noKerf :: OptimizationSettings where
  "noKerf = \<lparr>kerf = 0\<rparr>"

definition constantRandom :: "nat \<Rightarrow> rat" where
  "constantRandom n = 0"

text \<open>The individual that the genetic search builds from two 10 by 10 pieces on a 10 by
  10 panel, with its two piece objects at the addresses \<open>a\<close> and \<open>a + 1\<close>, and a population
  of such individuals.\<close>

definition twinAt :: "nat \<Rightarrow> GeneticIndividual" where
  "twinAt a = \<lparr>placements = [a, Suc a], fitness = 17 / 10, ind_sheetCount = 2, ind_efficiency = 2\<rparr>"

definition twinPopulation :: "GeneticIndividual list \<Rightarrow> GeneticState \<Rightarrow> bool" where
  "twinPopulation population gs \<longleftrightarrow>
     (\<forall>individual \<in> set population. \<exists>a. individual = twinAt a \<and>
         Suc a < nextObject (pieceStore gs) \<and>
         objects (pieceStore gs) a = placedAt ''a'' 0 0 10 10 0 \<and>
         objects (pieceStore gs) (Suc a) = placedAt ''a'' 0 0 10 10 0)"


text \<open>The invariants of the proofs below: the free rectangle that is a whole panel;
  the one sheet of the hybrid strategy, empty with the whole panel free or holding one
  piece with nothing free; and a beam node of the same two shapes. The state
  \<open>twoSheets\<close> has two sheets with one piece each; no run of the strategy reaches it.\<close>

definition twoSheets :: OptimizationState where
  "twoSheets =
     \<lparr>sheets = [\<lparr>sheet_placedPieces = [0], availableSpace = []\<rparr>,
                \<lparr>sheet_placedPieces = [1], availableSpace = []\<rparr>],
      currentSheet = 0,
      store = \<lparr>objects = (objects emptyObjects)(0 := placedAt ''A'' 0 0 6 6 0,
                                                 1 := placedAt ''B'' 5 5 4 4 1),
               nextObject = 2\<rparr>\<rparr>"

definition panelRectangle :: "OptimizationPanel \<Rightarrow> Rectangle" where
  "panelRectangle panel = \<lparr>x = 0, y = 0, width = panel_width panel, height = panel_height panel\<rparr>"

definition singleSheet :: "OptimizationPanel \<Rightarrow> OptimizationState \<Rightarrow> bool" where
  "singleSheet panel state \<longleftrightarrow>
     currentSheet state = 0 \<and>
     (\<exists>sheet. sheets state = [sheet] \<and>
        ((sheet_placedPieces sheet = [] \<and> availableSpace sheet = [panelRectangle panel]) \<or>
         (availableSpace sheet = [] \<and>
          (\<exists>a. sheet_placedPieces sheet = [a] \<and> inBounds panel (objects (store state) a)))))"

definition beamNodeOK :: "OptimizationPanel \<Rightarrow> BeamNode \<Rightarrow> bool" where
  "beamNodeOK panel node \<longleftrightarrow>
     (node_placedPieces node = [] \<and> node_availableSpaces node = [panelRectangle panel]) \<or>
     (node_availableSpaces node = [] \<and>
      (\<exists>p. node_placedPieces node = [p] \<and> inBounds panel p))"

text \<open>One rectangle lies inside another; the individual without placements; a piece
  that fits the empty panel in one of its two orientations.\<close>

definition containedIn :: "Rectangle \<Rightarrow> Rectangle \<Rightarrow> bool" where
  "containedIn r1 r2 \<longleftrightarrow>
     x r2 \<le> x r1 \<and> x r1 + width r1 \<le> x r2 + width r2 \<and>
     y r2 \<le> y r1 \<and> y r1 + height r1 \<le> y r2 + height r2"

definition emptyIndividual :: GeneticIndividual where
  "emptyIndividual = \<lparr>placements = [], fitness = 0, ind_sheetCount = 0, ind_efficiency = 0\<rparr>"

definition fitsPanel :: "OptimizationPanel \<Rightarrow> OptimizationPiece \<Rightarrow> bool" where
  "fitsPanel panel piece \<longleftrightarrow>
     canPlacePiece piece (panelRectangle panel) False \<or> canPlacePiece piece (panelRectangle panel) True"

section \<open>Piece preprocessor\<close>

lemma expandInner_replicate:
  "expandInner piece n expanded = expanded @ replicate n (piece\<lparr>quantity := 1\<rparr>)"
proof (induction n arbitrary: expanded)
  case 0
  show ?case by simp
next
  case (Suc n)
  show ?case by (simp add: Suc.IH replicate_app_Cons_same)
qed

lemma expandOuter_concat:
  "expandOuter pieces expanded =
     expanded @ concat (map (\<lambda>p. replicate (nat (quantity p)) (p\<lparr>quantity := 1\<rparr>)) pieces)"
  by (induction pieces arbitrary: expanded) (simp_all add: expandInner_replicate)

lemma expandPieces_concat:
  "expandPieces pieces = concat (map (\<lambda>p. replicate (nat (quantity p)) (p\<lparr>quantity := 1\<rparr>)) pieces)"
  by (simp add: expandPieces_def expandOuter_concat)

text \<open>
  C8 (as amended). \<open>expandPieces\<close> replaces each piece of quantity \<open>N\<close> by \<open>N\<close> copies of
  it with the quantity set to 1, in the order of the input, so the length of the output
  is the sum of the quantities (a quantity below 0 counting as 0). A copy differs from
  its source piece in the quantity only: it has the identifier of its source and no
  key of its own.
\<close>

theorem expandPieces_copies:
  "expandPieces pieces =
     concat (map (\<lambda>p. replicate (nat (quantity p)) (p\<lparr>quantity := 1\<rparr>)) pieces) \<and>
   length (expandPieces pieces) = sum_list (map (\<lambda>p. nat (quantity p)) pieces)"
proof -
  have "length (concat (map (\<lambda>p. replicate (nat (quantity p)) (p\<lparr>quantity := 1\<rparr>)) pieces))
        = sum_list (map (\<lambda>p. nat (quantity p)) pieces)"
    by (induction pieces) simp_all
  then show ?thesis by (simp add: expandPieces_concat)
qed

text \<open>
  C8 (as stated) fails: the two unit pieces made from one piece of quantity 2 are the
  same value, with the identifier of the source piece, so nothing tells them apart.
\<close>

theorem expandPieces_instances_equal:
  "expandPieces [plainPiece ''shelf'' 30 20 2] =
     [plainPiece ''shelf'' 30 20 1, plainPiece ''shelf'' 30 20 1] \<and>
   piece_id (plainPiece ''shelf'' 30 20 1) = piece_id (plainPiece ''shelf'' 30 20 2)"
  by (simp add: expandPieces_concat plainPiece_def numeral_2_eq_2)

text \<open>
  C7. The comparator of \<open>sortPiecesByPriority\<close> takes \<open>a.width * b.height\<close> for the area
  of \<open>a\<close>. Of two pieces of equal priority, the 2 by 10 piece (area 20) is sorted after
  the 3 by 1 piece (area 3): the secondary key is not the area.
\<close>

theorem sortPiecesByPriority_not_by_area:
  "sortPiecesByPriority [plainPiece ''tall'' 2 10 1, plainPiece ''wide'' 3 1 1] =
     [plainPiece ''wide'' 3 1 1, plainPiece ''tall'' 2 10 1]"
  by (simp add: sortPiecesByPriority_def sortWith_def comparePriority_def priorityOr0_def
      plainPiece_def)

section \<open>Free-space splitting\<close>

text \<open>The shared \<open>splitSpace\<close> (and its copy in the beam search): a free rectangle that
  does not overlap the used one is passed on as it is; one that overlaps yields at most
  four children, each inside the free rectangle and clear of the used one (in exact
  arithmetic); and whatever is returned is wider and higher than the kerf.\<close>

lemma splitOne_disjoint: "\<not> spaceOverlapsUsed usedSpace space \<Longrightarrow> splitOne usedSpace space = [space]"
  by (simp add: splitOne_def)

lemma splitOne_children:
  assumes "spaceOverlapsUsed usedSpace space"
  shows "length (splitOne usedSpace space) \<le> 4 \<and>
         (\<forall>child \<in> set (splitOne usedSpace space).
            containedIn child space \<and> \<not> rectanglesOverlap child usedSpace)"
  using assms
  by (auto simp: splitOne_def spaceOverlapsUsed_def containedIn_def rectanglesOverlap_def)

lemma splitSpace_above_kerf:
  "\<forall>child \<in> set (splitSpace availableSpaces usedSpace w h k).
     k < width child \<and> k < height child \<and>
     (\<exists>space \<in> set availableSpaces. child \<in> set (splitOne usedSpace space))"
  by (auto simp: splitSpace_def)

text \<open>
  C6. The private \<open>splitSpace\<close> of First-Fit-Decreasing, called as the strategy calls it
  for a 6 by 6 piece placed at the origin of a 10 by 10 sheet with kerf 5: it returns the
  strip below the piece only, of height 4, which is not above the kerf; the strip to the
  right of the piece is not produced.
\<close>

theorem ffdSplitSpace_keeps_sliver:
  "ffdSplitSpace [\<lparr>x = 0, y = 0, width = 10, height = 10\<rparr>]
       \<lparr>x = 0, y = 0, width = 6, height = 6\<rparr> 6 6 5 =
     [\<lparr>x = 0, y = 6, width = 10, height = 4\<rparr>]"
  by (simp add: ffdSplitSpace_def ffdSplitOne_def)

section \<open>Beam search\<close>

text \<open>
  C3. One 1 by 1 piece on a 10 by 10 panel: the candidate that placed the piece still has
  it in its remaining pieces, so the result reports the piece both as placed and as
  unused.
\<close>

theorem beam_placed_piece_stays_remaining:
  "beamExecute [plainPiece ''a'' 1 1 1] [panel10] noKerf =
     Inr \<lparr>placedPieces = [placedAt ''a'' 0 0 1 1 0],
          unusedPieces = [plainPiece ''a'' 1 1 1],
          efficiency = 1 / 100, totalArea = 100, usedArea = 1, wastedArea = 99,
          sheetCount = 1, algorithm = ''beam_search_guillotine''\<rparr>"
  by code_simp

text \<open>
  C9. One 20 by 20 piece, which no orientation fits on a 10 by 10 panel: the only
  candidate has no child, the beam becomes empty, and the strategy raises.
\<close>

theorem beam_oversize_piece_raises:
  "beamExecute [plainPiece ''big'' 20 20 1] [panel10] noKerf =
     Inl (Error ''No valid solution found'')"
  by code_simp

text \<open>First-Fit-Decreasing on the same input returns: nothing is placed, the piece is
  reported as unused, and the sheet count is that of the initial sheet.\<close>

lemma ffd_oversize:
  "ffdExecute [plainPiece ''big'' 20 20 1] [panel10] noKerf =
     Inr \<lparr>placedPieces = [], unusedPieces = [plainPiece ''big'' 20 20 1],
          efficiency = 0, totalArea = 100, usedArea = 0, wastedArea = 100,
          sheetCount = 1, algorithm = ''first_fit_decreasing''\<rparr>"
  by code_simp

section \<open>The manager\<close>

text \<open>
  C2. A request with a piece that may rotate, sent to First-Fit-Decreasing (which
  declares no support for rotation): \<open>executeWithFallback\<close> runs the strategy and returns
  its result.
\<close>

theorem executeWithFallback_runs_incompatible:
  "supportsRotation firstFit = False \<and>
   executeWithFallback constantRandom
     \<lparr>req_pieces = [rotatablePiece ''a'' 10 20 1], req_panels = [panel100],
      req_settings = noKerf\<rparr> (Some ''first_fit_decreasing'') =
     Inr \<lparr>placedPieces = [placedAt ''a'' 0 0 10 20 0], unusedPieces = [],
          efficiency = 1 / 50, totalArea = 10000, usedArea = 200, wastedArea = 9800,
          sheetCount = 1, algorithm = ''first_fit_decreasing''\<rparr>"
  by code_simp

section \<open>Sorting\<close>

lemma length_insortWith: "length (insortWith cmp a xs) = Suc (length xs)"
  by (induction xs) simp_all

lemma length_sortWith: "length (sortWith cmp xs) = length xs"
  by (induction xs) (simp_all add: sortWith_def length_insortWith)

lemma set_insortWith: "set (insortWith cmp a xs) = insert a (set xs)"
  by (induction xs) auto

lemma set_sortWith: "set (sortWith cmp xs) = set xs"
  by (induction xs) (simp_all add: sortWith_def set_insortWith)

lemma sortWith_Cons: "sortWith cmp (a # xs) = insortWith cmp a (sortWith cmp xs)"
  by (simp add: sortWith_def)

lemma sortWith_all_le:
  "(\<forall>a \<in> set xs. \<forall>b \<in> set xs. cmp a b \<le> 0) \<Longrightarrow> sortWith cmp xs = xs"
proof (induction xs)
  case Nil
  show ?case by (simp add: sortWith_def)
next
  case (Cons a xs)
  then have "sortWith cmp xs = xs" by simp
  then show ?case using Cons.prems by (cases xs) (simp_all add: sortWith_Cons)
qed

section \<open>Genetic search\<close>

subsection \<open>Every run returns\<close>

lemma length_initializeLoop:
  "length (fst (initializeLoop rng pieces panel settings n population gs)) = length population + n"
  by (induction n arbitrary: population gs) (simp_all add: Let_def split: prod.splits)

lemma tournament_keeps_best:
  "best \<noteq> None \<Longrightarrow> fst (tournament rng population n best gs) \<noteq> None"
  by (induction n arbitrary: best gs) (simp_all add: Let_def split: prod.splits)

lemma randomIndex_in_range:
  assumes "rng (randomCalls gs) < 1" and "0 < n"
  shows "fst (randomIndex rng n gs) < n"
proof -
  have "rng (randomCalls gs) * of_nat n < of_nat n"
    using assms by simp
  then have "\<lfloor>rng (randomCalls gs) * of_nat n\<rfloor> < int n"
    by (simp add: floor_less_iff)
  then have "nat \<lfloor>rng (randomCalls gs) * of_nat n\<rfloor> < n"
    using assms(2) by linarith
  then show ?thesis
    by (simp add: randomIndex_def nextRandom_def)
qed

lemma selectParent_returns:
  assumes "\<forall>n. 0 \<le> rng n \<and> rng n < 1" and "population \<noteq> []"
  shows "\<exists>best gs1. selectParent rng population gs = Inr (best, gs1)"
proof -
  obtain i gs1 where ri: "randomIndex rng (length population) gs = (i, gs1)"
    by (cases "randomIndex rng (length population) gs")
  have "fst (randomIndex rng (length population) gs) < length population"
    using assms by (intro randomIndex_in_range) simp_all
  then have i: "i < length population" by (simp add: ri)
  have "tournament rng population 3 None gs =
        tournament rng population 2 (Some (population ! i)) gs1"
    by (simp add: numeral_3_eq_3 numeral_2_eq_2 ri i del: tournament.simps(2))
       (simp add: ri i)
  then have "fst (tournament rng population 3 None gs) \<noteq> None"
    by (simp add: tournament_keeps_best)
  then show ?thesis
    by (cases "tournament rng population 3 None gs") (auto simp: selectParent_def)
qed

lemma evolveLoop_returns:
  assumes "\<forall>n. 0 \<le> rng n \<and> rng n < 1" and "population \<noteq> []"
  shows "\<exists>newPopulation1 gs1.
           evolveLoop rng population panel n newPopulation gs = Inr (newPopulation1, gs1) \<and>
           length newPopulation1 = length newPopulation + n"
proof (induction n arbitrary: newPopulation gs)
  case 0
  show ?case by simp
next
  case (Suc n)
  obtain parent1 gs1 where p1: "selectParent rng population gs = Inr (parent1, gs1)"
    using selectParent_returns [OF assms] by blast
  obtain parent2 gs2 where p2: "selectParent rng population gs1 = Inr (parent2, gs2)"
    using selectParent_returns [OF assms] by blast
  obtain child gs3 where c: "crossover rng parent1 parent2 panel gs2 = (child, gs3)"
    by (cases "crossover rng parent1 parent2 panel gs2")
  obtain child1 gs4 where m: "mutate rng child panel gs3 = (child1, gs4)"
    by (cases "mutate rng child panel gs3")
  show ?case
    using Suc.IH [of "newPopulation @ [child1]" gs4] by (simp add: p1 p2 c m)
qed

lemma evolvePopulation_returns:
  assumes "\<forall>n. 0 \<le> rng n \<and> rng n < 1" and "population \<noteq> []"
  shows "\<exists>population1 gs1.
           evolvePopulation rng population panel gs = Inr (population1, gs1) \<and>
           length population1 = length population"
proof -
  obtain first others where pop: "population = first # others"
    using assms(2) by (cases population) auto
  define best where "best = foldl (\<lambda>best current. if fitness current > fitness best
                                                       then current else best) first others"
  show ?thesis
    using evolveLoop_returns [OF assms, of panel "length population - 1" "[best]" gs]
    by (simp add: evolvePopulation_def pop Let_def flip: best_def)
qed

lemma evolutionLoop_returns:
  assumes "\<forall>n. 0 \<le> rng n \<and> rng n < 1" and "population \<noteq> []"
  shows "\<exists>population1 gs1.
           evolutionLoop rng panel n population gs = Inr (population1, gs1) \<and> population1 \<noteq> []"
  using assms(2)
proof (induction n arbitrary: population gs)
  case 0
  then show ?case by simp
next
  case (Suc n)
  define sorted' where "sorted' = sortWith compareFitness
     (map (\<lambda>individual. individual\<lparr>fitness :=
         fitness (evaluateIndividual (pieceStore gs) (placements individual) panel)\<rparr>) population)"
  have "length sorted' = length population"
    by (simp add: sorted'_def length_sortWith)
  then have ne: "sorted' \<noteq> []"
    using Suc.prems by auto
  obtain population1 gs1 where
    ev: "evolvePopulation rng sorted' panel gs = Inr (population1, gs1)"
    and len: "length population1 = length sorted'"
    using evolvePopulation_returns [OF assms(1) ne] by blast
  have ne1: "population1 \<noteq> []" using len ne by auto
  show ?case
    using Suc.IH [OF ne1, of gs1] ne
    by (simp add: Let_def ev flip: sorted'_def)
qed

text \<open>
  C10 (as amended). Whenever a panel is supplied (and the random source gives numbers of
  \<open>[0, 1)\<close>), the genetic search returns a result, and the list of unused pieces of that
  result is empty, whatever was placed.
\<close>

theorem genetic_unusedPieces_empty:
  assumes "\<forall>n. 0 \<le> rng n \<and> rng n < 1" and "panels \<noteq> []"
  shows "\<exists>r. geneticExecute rng pieces panels settings = Inr r \<and> unusedPieces r = []"
proof -
  obtain panel rest where panels: "panels = panel # rest"
    using assms(2) by (cases panels) auto
  obtain population gs where
    init: "initializePopulation rng (sortPiecesByPriority (expandPieces pieces)) panel settings
             initialGeneticState = (population, gs)"
    by (cases "initializePopulation rng (sortPiecesByPriority (expandPieces pieces)) panel settings
             initialGeneticState")
  have "length population = populationSize"
    using length_initializeLoop [of rng "sortPiecesByPriority (expandPieces pieces)" panel settings
        populationSize "[]" initialGeneticState] init
    by (simp add: initializePopulation_def)
  then have ne: "population \<noteq> []" by (auto simp: populationSize_def)
  obtain population1 gs1 where
    ev: "evolutionLoop rng panel generations population gs = Inr (population1, gs1)"
    and ne1: "population1 \<noteq> []"
    using evolutionLoop_returns [OF assms(1) ne] by blast
  obtain best others where p1: "population1 = best # others"
    using ne1 by (cases population1) auto
  show ?thesis
    by (simp add: geneticExecute_def geneticRunOptimization_def panels init ev p1 Let_def)
qed

theorem genetic_unusedPieces_empty_witness:
  "(\<forall>n. 0 \<le> constantRandom n \<and> constantRandom n < 1) \<and> [panel10] \<noteq> [] \<and>
   (\<exists>r. geneticExecute constantRandom [plainPiece ''big'' 20 20 1] [panel10] noKerf = Inr r \<and>
        unusedPieces r = [])"
  using genetic_unusedPieces_empty [of constantRandom "[panel10]" "[plainPiece ''big'' 20 20 1]" noKerf]
  by (simp add: constantRandom_def)

text \<open>
  C10 (as stated, for every input) fails: without a panel the genetic search returns no
  result, it raises.
\<close>

theorem genetic_no_panel_raises:
  "geneticExecute constantRandom [plainPiece ''a'' 10 10 1] [] noKerf =
     Inl (Error ''Advanced Genetic Algorithm failed: No panels provided for optimization'')"
  by (simp add: geneticExecute_def geneticRunOptimization_def)

subsection \<open>Pieces that fit nowhere are left out\<close>

text \<open>When no piece fits the panel in either orientation, every individual of every
  generation is empty, and the result has neither placed nor unused pieces.\<close>

lemma tryPlacePiece_oversize:
  "\<not> fitsPanel panel piece \<Longrightarrow>
   tryPlacePiece piece (panelRectangle panel) rot settings acc i = None"
  by (cases acc) (auto simp: tryPlacePiece_def fitsPanel_def canPlacePiece_def Let_def)

lemma createStep_oversize:
  assumes "\<not> fitsPanel panel piece"
  shows "\<exists>gs1. createStep rng panel settings ([], [panelRectangle panel], gs) piece =
           ([], [panelRectangle panel], gs1) \<and> pieceStore gs1 = pieceStore gs"
proof -
  define gs0 where "gs0 = (if canRotate piece = Some True then snd (nextRandom rng gs) else gs)"
  have store: "pieceStore gs0 = pieceStore gs"
    by (simp add: gs0_def nextRandom_def)
  have scan: "scanSpaces rng piece settings [] [panelRectangle panel] gs 0 =
        (False, [], [panelRectangle panel], gs0)"
    by (subst scanSpaces.simps)
       (simp add: tryPlacePiece_oversize [OF assms] gs0_def case_prod_unfold Let_def
          scanSpaces.simps [of _ _ _ _ _ _ "Suc 0"])
  show ?thesis
    using tryPlacePiece_oversize [OF assms, of False settings "([], [panelRectangle panel], gs0)"]
    by (intro exI [of _ gs0])
       (simp add: createStep_def scan store del: scanSpaces.simps flip: panelRectangle_def)
qed

lemma createRandomPlacement_oversize:
  assumes "\<forall>piece \<in> set pieces. \<not> fitsPanel panel piece"
  shows "\<exists>gs1. createRandomPlacement rng pieces panel settings gs = ([], gs1)"
proof -
  have "\<exists>gs1. foldl (createStep rng panel settings) ([], [panelRectangle panel], gs) pieces =
           ([], [panelRectangle panel], gs1)"
    using assms
  proof (induction pieces arbitrary: gs)
    case Nil
    show ?case by simp
  next
    case (Cons piece pieces)
    then obtain gs1 where "createStep rng panel settings ([], [panelRectangle panel], gs) piece =
           ([], [panelRectangle panel], gs1)"
      using createStep_oversize [of panel piece rng settings gs] by auto
    then show ?case using Cons.IH [of gs1] Cons.prems by simp
  qed
  then show ?thesis
    by (auto simp: createRandomPlacement_def simp flip: panelRectangle_def)
qed

lemma evaluateIndividual_Nil: "evaluateIndividual st [] panel = emptyIndividual"
  by (simp add: evaluateIndividual_def emptyIndividual_def)

lemma initializeLoop_oversize:
  assumes "\<forall>piece \<in> set pieces. \<not> fitsPanel panel piece"
  shows "\<forall>individual \<in> set population. individual = emptyIndividual \<Longrightarrow>
         \<forall>individual \<in> set (fst (initializeLoop rng pieces panel settings n population gs)).
            individual = emptyIndividual"
proof (induction n arbitrary: population gs)
  case 0
  then show ?case by simp
next
  case (Suc n)
  obtain gs1 where step: "createRandomPlacement rng pieces panel settings gs = ([], gs1)"
    using createRandomPlacement_oversize [OF assms] by blast
  show ?case
    using Suc.IH [of "population @ [emptyIndividual]" gs1] Suc.prems
    by (simp add: step evaluateIndividual_Nil)
qed

lemma tournament_member:
  "(case best of None \<Rightarrow> True | Some b \<Rightarrow> b \<in> set population) \<Longrightarrow>
   (case fst (tournament rng population n best gs) of None \<Rightarrow> True | Some b \<Rightarrow> b \<in> set population)"
proof (induction n arbitrary: best gs)
  case 0
  then show ?case by simp
next
  case (Suc n)
  obtain i gs1 where ri: "randomIndex rng (length population) gs = (i, gs1)"
    by (cases "randomIndex rng (length population) gs")
  define best1 where "best1 = (if i < length population \<and>
                      (case best of None \<Rightarrow> True
                       | Some b \<Rightarrow> fitness (population ! i) > fitness b)
                   then Some (population ! i) else best)"
  have "case best1 of None \<Rightarrow> True | Some b \<Rightarrow> b \<in> set population"
    using Suc.prems by (simp add: best1_def)
  then have "case fst (tournament rng population n best1 gs1) of None \<Rightarrow> True
             | Some b \<Rightarrow> b \<in> set population"
    by (rule Suc.IH)
  then show ?case
    by (simp add: ri flip: best1_def)
qed

lemma selectParent_member:
  "selectParent rng population gs = Inr (best, gs1) \<Longrightarrow> best \<in> set population"
  using tournament_member [where best = None and population = population and rng = rng
      and n = 3 and gs = gs]
  by (auto simp: selectParent_def split: prod.splits option.splits)

lemma crossover_empty:
  "placements parent1 = [] \<Longrightarrow> placements parent2 = [] \<Longrightarrow>
   fst (crossover rng parent1 parent2 panel gs) = emptyIndividual"
  by (simp add: crossover_def randomIndex_def nextRandom_def removeDuplicatePlacements_def
      validatePlacements_def evaluateIndividual_Nil)

lemma mutate_empty: "fst (mutate rng emptyIndividual panel gs) = emptyIndividual"
  by (simp add: mutate_def swapMutation_def emptyIndividual_def evaluateIndividual_def)

lemma evolveLoop_empty:
  assumes "\<forall>individual \<in> set population. individual = emptyIndividual"
  shows "\<forall>individual \<in> set newPopulation. individual = emptyIndividual \<Longrightarrow>
         evolveLoop rng population panel n newPopulation gs = Inr (newPopulation1, gs1) \<Longrightarrow>
         \<forall>individual \<in> set newPopulation1. individual = emptyIndividual"
proof (induction n arbitrary: newPopulation gs)
  case 0
  then show ?case by simp
next
  case (Suc n)
  from Suc.prems(2) obtain parent1 gsa parent2 gsb where
    p1: "selectParent rng population gs = Inr (parent1, gsa)"
    and p2: "selectParent rng population gsa = Inr (parent2, gsb)"
    by (auto split: sum.splits)
  have e1: "placements parent1 = []" and e2: "placements parent2 = []"
    using selectParent_member [OF p1] selectParent_member [OF p2] assms
    by (auto simp: emptyIndividual_def)
  obtain child gsc where c: "crossover rng parent1 parent2 panel gsb = (child, gsc)"
    by (cases "crossover rng parent1 parent2 panel gsb")
  then have child: "child = emptyIndividual"
    using crossover_empty [OF e1 e2, of rng panel gsb] by simp
  obtain child1 gsd where m: "mutate rng child panel gsc = (child1, gsd)"
    by (cases "mutate rng child panel gsc")
  then have child1: "child1 = emptyIndividual"
    using mutate_empty [of rng panel gsc] child by simp
  have "evolveLoop rng population panel n (newPopulation @ [child1]) gsd = Inr (newPopulation1, gs1)"
    using Suc.prems(2) by (simp add: p1 p2 c m)
  then show ?case
    using Suc.IH [of "newPopulation @ [child1]" gsd] Suc.prems(1) child1 by simp
qed

lemma foldl_pick_member:
  "foldl (\<lambda>best current. if fitness current > fitness best then current else best) first others
     \<in> set (first # others)"
proof (induction others arbitrary: first)
  case Nil
  show ?case by simp
next
  case (Cons other others)
  show ?case using Cons.IH [of other] Cons.IH [of first] by auto
qed

lemma evolvePopulation_empty:
  assumes "\<forall>individual \<in> set population. individual = emptyIndividual"
    and "evolvePopulation rng population panel gs = Inr (population1, gs1)"
  shows "\<forall>individual \<in> set population1. individual = emptyIndividual"
proof (cases population)
  case Nil
  then show ?thesis using assms(2) by (simp add: evolvePopulation_def)
next
  case (Cons first others)
  define best where "best = foldl (\<lambda>best current. if fitness current > fitness best
                                                       then current else best) first others"
  have "best \<in> set population"
    unfolding best_def Cons by (rule foldl_pick_member)
  then have "\<forall>individual \<in> set [best]. individual = emptyIndividual"
    using assms(1) by simp
  moreover have "evolveLoop rng population panel (length population - 1) [best] gs = Inr (population1, gs1)"
    using assms(2) by (simp add: evolvePopulation_def Cons Let_def flip: best_def)
  ultimately show ?thesis
    by (rule evolveLoop_empty [OF assms(1)])
qed

lemma evolutionLoop_empty:
  shows "\<forall>individual \<in> set population. individual = emptyIndividual \<Longrightarrow>
         evolutionLoop rng panel n population gs = Inr (population1, gs1) \<Longrightarrow>
         \<forall>individual \<in> set population1. individual = emptyIndividual"
proof (induction n arbitrary: population gs)
  case 0
  then show ?case by simp
next
  case (Suc n)
  have same: "map (\<lambda>individual. individual\<lparr>fitness :=
          fitness (evaluateIndividual (pieceStore gs) (placements individual) panel)\<rparr>) population
        = population"
  proof (rule map_idI)
    fix individual
    assume "individual \<in> set population"
    then have "individual = emptyIndividual" using Suc.prems(1) by simp
    then show "individual\<lparr>fitness :=
          fitness (evaluateIndividual (pieceStore gs) (placements individual) panel)\<rparr> = individual"
      by (simp add: emptyIndividual_def evaluateIndividual_def)
  qed
  define sorted' where "sorted' = sortWith compareFitness population"
  have all: "\<forall>individual \<in> set sorted'. individual = emptyIndividual"
    using Suc.prems(1) by (simp add: sorted'_def set_sortWith)
  then have nobreak: "\<not> (case sorted' of [] \<Rightarrow> False
                          | bestIndividual # _ \<Rightarrow> ind_efficiency bestIndividual > 95 / 100)"
    by (cases sorted') (simp_all add: emptyIndividual_def)
  have unfold: "evolutionLoop rng panel (Suc n) population gs =
        (case evolvePopulation rng sorted' panel gs of
                 Inl e \<Rightarrow> Inl e
               | Inr (population1, gs1) \<Rightarrow> evolutionLoop rng panel n population1 gs1)"
    using nobreak by (subst evolutionLoop.simps(2), simp only: same Let_def flip: sorted'_def) simp
  from Suc.prems(2) obtain population2 gs2 where
    ev: "evolvePopulation rng sorted' panel gs = Inr (population2, gs2)"
    and rest: "evolutionLoop rng panel n population2 gs2 = Inr (population1, gs1)"
    unfolding unfold by (auto split: sum.splits)
  show ?case
    using Suc.IH [OF evolvePopulation_empty [OF all ev] rest] .
qed

lemma genetic_oversize:
  assumes "\<forall>n. 0 \<le> rng n \<and> rng n < 1"
    and "\<forall>piece \<in> set pieces. \<not> fitsPanel panel piece"
  shows "geneticExecute rng pieces (panel # panels) settings =
     Inr \<lparr>placedPieces = [], unusedPieces = [], efficiency = 0,
          totalArea = panel_height panel * panel_width panel, usedArea = 0,
          wastedArea = panel_height panel * panel_width panel, sheetCount = 0,
          algorithm = ''advanced_genetic_algorithm''\<rparr>"
proof -
  define sorted' where "sorted' = sortPiecesByPriority (expandPieces pieces)"
  have big: "\<forall>piece \<in> set sorted'. \<not> fitsPanel panel piece"
    using assms(2)
    by (auto simp: sorted'_def sortPiecesByPriority_def set_sortWith expandPieces_concat
        fitsPanel_def canPlacePiece_def)
  obtain population gs where
    init: "initializePopulation rng sorted' panel settings initialGeneticState = (population, gs)"
    by (cases "initializePopulation rng sorted' panel settings initialGeneticState")
  have pop: "\<forall>individual \<in> set population. individual = emptyIndividual"
    using initializeLoop_oversize [OF big, of "[]" rng settings populationSize initialGeneticState]
      init by (simp add: initializePopulation_def)
  have "length population = populationSize"
    using length_initializeLoop [of rng sorted' panel settings populationSize "[]" initialGeneticState]
      init by (simp add: initializePopulation_def)
  then have ne: "population \<noteq> []" by (auto simp: populationSize_def)
  obtain population1 gs1 where
    ev: "evolutionLoop rng panel generations population gs = Inr (population1, gs1)"
    and ne1: "population1 \<noteq> []"
    using evolutionLoop_returns [OF assms(1) ne] by blast
  have "\<forall>individual \<in> set population1. individual = emptyIndividual"
    using evolutionLoop_empty [OF pop ev] .
  then obtain others where p1: "population1 = emptyIndividual # others"
    using ne1 by (cases population1) auto
  show ?thesis
    by (simp add: geneticExecute_def geneticRunOptimization_def init ev p1 emptyIndividual_def
        flip: sorted'_def)
qed

subsection \<open>Two pieces of the size of the panel\<close>

lemma sorted_twins: "sortPiecesByPriority (expandPieces [plainPiece ''a'' 10 10 2]) =
    [plainPiece ''a'' 10 10 1, plainPiece ''a'' 10 10 1]"
  by (simp add: expandPieces_concat sortPiecesByPriority_def sortWith_def comparePriority_def
      priorityOr0_def plainPiece_def numeral_2_eq_2)

lemma createRandomPlacement_twins:
  "createRandomPlacement rng [plainPiece ''a'' 10 10 1, plainPiece ''a'' 10 10 1] panel10 noKerf gs =
     ([nextObject (pieceStore gs), Suc (nextObject (pieceStore gs))],
      gs\<lparr>pieceStore :=
            \<lparr>objects = (objects (pieceStore gs))
                (nextObject (pieceStore gs) := placedAt ''a'' 0 0 10 10 0,
                 Suc (nextObject (pieceStore gs)) := placedAt ''a'' 0 0 10 10 0),
             nextObject = Suc (Suc (nextObject (pieceStore gs)))\<rparr>\<rparr>)"
  by (simp add: createRandomPlacement_def createStep_def tryPlacePiece_def splitSpace_def
      splitOne_def spaceOverlapsUsed_def newObject_def plainPiece_def panel10_def noKerf_def
      placedAt_def Let_def)

lemma evaluateIndividual_twin:
  assumes "objects st a = placedAt ''a'' 0 0 10 10 0"
    and "objects st (Suc a) = placedAt ''a'' 0 0 10 10 0"
  shows "evaluateIndividual st [a, Suc a] panel10 = twinAt a"
proof -
  have "\<lceil>(2::rat)\<rceil> = 2" by simp
  then show ?thesis
    using assms by (simp add: evaluateIndividual_def placedAt_def panel10_def twinAt_def)
qed

lemma initializeLoop_twins:
  assumes "twinPopulation population gs"
  shows "\<exists>new gs1.
           initializeLoop rng [plainPiece ''a'' 10 10 1, plainPiece ''a'' 10 10 1] panel10 noKerf
             n population gs = (population @ new, gs1) \<and>
           twinPopulation (population @ new) gs1 \<and> length new = n \<and>
           (0 < n \<longrightarrow> hd new = twinAt (nextObject (pieceStore gs)))"
  using assms
proof (induction n arbitrary: population gs)
  case 0
  then show ?case by simp
next
  case (Suc n)
  define m where "m = nextObject (pieceStore gs)"
  define gs1 where "gs1 = gs\<lparr>pieceStore :=
            \<lparr>objects = (objects (pieceStore gs))
                (m := placedAt ''a'' 0 0 10 10 0, Suc m := placedAt ''a'' 0 0 10 10 0),
             nextObject = Suc (Suc m)\<rparr>\<rparr>"
  have ev: "evaluateIndividual (pieceStore gs1) [m, Suc m] panel10 = twinAt m"
    by (rule evaluateIndividual_twin) (simp_all add: gs1_def)
  have inv: "twinPopulation (population @ [twinAt m]) gs1"
    unfolding twinPopulation_def
  proof
    fix individual
    assume "individual \<in> set (population @ [twinAt m])"
    then consider "individual \<in> set population" | "individual = twinAt m" by auto
    then show "\<exists>a. individual = twinAt a \<and> Suc a < nextObject (pieceStore gs1) \<and>
         objects (pieceStore gs1) a = placedAt ''a'' 0 0 10 10 0 \<and>
         objects (pieceStore gs1) (Suc a) = placedAt ''a'' 0 0 10 10 0"
    proof cases
      case 1
      then obtain a where "individual = twinAt a" "Suc a < m"
        "objects (pieceStore gs) a = placedAt ''a'' 0 0 10 10 0"
        "objects (pieceStore gs) (Suc a) = placedAt ''a'' 0 0 10 10 0"
        using Suc.prems unfolding twinPopulation_def m_def by blast
      then show ?thesis by (intro exI [of _ a]) (simp add: gs1_def)
    next
      case 2
      then show ?thesis by (intro exI [of _ m]) (simp add: gs1_def)
    qed
  qed
  obtain new gs2 where
    run: "initializeLoop rng [plainPiece ''a'' 10 10 1, plainPiece ''a'' 10 10 1] panel10 noKerf
             n (population @ [twinAt m]) gs1 = ((population @ [twinAt m]) @ new, gs2)"
    and inv2: "twinPopulation ((population @ [twinAt m]) @ new) gs2"
    and len: "length new = n"
    using Suc.IH [OF inv] by blast
  have step: "createRandomPlacement rng [plainPiece ''a'' 10 10 1, plainPiece ''a'' 10 10 1]
                 panel10 noKerf gs = ([m, Suc m], gs1)"
    by (simp add: createRandomPlacement_twins m_def gs1_def)
  have unfold: "initializeLoop rng [plainPiece ''a'' 10 10 1, plainPiece ''a'' 10 10 1] panel10 noKerf
             (Suc n) population gs =
          initializeLoop rng [plainPiece ''a'' 10 10 1, plainPiece ''a'' 10 10 1] panel10 noKerf
             n (population @ [twinAt m]) gs1"
    by (simp add: step ev)
  have result: "initializeLoop rng [plainPiece ''a'' 10 10 1, plainPiece ''a'' 10 10 1] panel10 noKerf
             (Suc n) population gs = (population @ twinAt m # new, gs2)"
    by (simp only: unfold run append_assoc append_Cons append_Nil)
  have inv3: "twinPopulation (population @ twinAt m # new) gs2"
    using inv2 by simp
  show ?case
    by (intro exI [of _ "twinAt m # new"] exI [of _ gs2] conjI)
       (rule result, rule inv3, simp add: len, simp add: m_def)
qed

lemma evolutionLoop_twins:
  assumes "twinPopulation population gs" and "population \<noteq> []"
  shows "evolutionLoop rng panel10 (Suc n) population gs = Inr (population, gs)"
proof -
  have same: "map (\<lambda>individual. individual\<lparr>fitness :=
          fitness (evaluateIndividual (pieceStore gs) (placements individual) panel10)\<rparr>) population
        = population"
  proof (rule map_idI)
    fix individual
    assume "individual \<in> set population"
    then obtain a where "individual = twinAt a"
      "objects (pieceStore gs) a = placedAt ''a'' 0 0 10 10 0"
      "objects (pieceStore gs) (Suc a) = placedAt ''a'' 0 0 10 10 0"
      using assms(1) unfolding twinPopulation_def by blast
    then show "individual\<lparr>fitness :=
          fitness (evaluateIndividual (pieceStore gs) (placements individual) panel10)\<rparr> = individual"
      using evaluateIndividual_twin [of "pieceStore gs" a] by (simp add: twinAt_def)
  qed
  have fit: "\<forall>individual \<in> set population. ind_efficiency individual = 2"
    using assms(1) unfolding twinPopulation_def by (auto simp: twinAt_def)
  have "\<forall>individual \<in> set population. fitness individual = fitness (twinAt 0)"
  proof
    fix individual
    assume "individual \<in> set population"
    then obtain a where "individual = twinAt a"
      using assms(1) unfolding twinPopulation_def by blast
    then show "fitness individual = fitness (twinAt 0)" by (simp add: twinAt_def)
  qed
  then have sorted: "sortWith compareFitness population = population"
    by (intro sortWith_all_le) (simp add: compareFitness_def)
  obtain first others where pop: "population = first # others"
    using assms(2) by (cases population) auto
  have "ind_efficiency first = 2" using fit pop by simp
  then show ?thesis
    by (subst evolutionLoop.simps(2), simp only: same sorted Let_def) (simp add: pop)
qed

lemma genetic_twins_run:
  "geneticExecute rng [plainPiece ''a'' 10 10 2] [panel10] noKerf =
     Inr \<lparr>placedPieces = [placedAt ''a'' 0 0 10 10 0, placedAt ''a'' 0 0 10 10 0],
          unusedPieces = [], efficiency = 2, totalArea = 100, usedArea = 200,
          wastedArea = - 100, sheetCount = 2, algorithm = ''advanced_genetic_algorithm''\<rparr>"
proof -
  have start: "twinPopulation [] initialGeneticState"
    by (simp add: twinPopulation_def)
  obtain new gs where
    init: "initializeLoop rng [plainPiece ''a'' 10 10 1, plainPiece ''a'' 10 10 1] panel10 noKerf
             populationSize [] initialGeneticState = (new, gs)"
    and inv: "twinPopulation new gs" and len: "length new = populationSize"
    and first: "hd new = twinAt 0"
    using initializeLoop_twins [OF start, of rng populationSize]
    by (auto simp: populationSize_def initialGeneticState_def emptyObjects_def)
  have ne: "new \<noteq> []" using len by (auto simp: populationSize_def)
  then obtain others where new: "new = twinAt 0 # others"
    using first by (cases new) auto
  have objs: "objects (pieceStore gs) 0 = placedAt ''a'' 0 0 10 10 0 \<and>
              objects (pieceStore gs) (Suc 0) = placedAt ''a'' 0 0 10 10 0"
    using inv unfolding twinPopulation_def new by (auto simp: twinAt_def)
  have "generations = Suc 99" by (simp add: generations_def)
  have ev: "evolutionLoop rng panel10 generations new gs = Inr (new, gs)"
    unfolding \<open>generations = Suc 99\<close> by (rule evolutionLoop_twins [OF inv ne])
  have "geneticRunOptimization rng [plainPiece ''a'' 10 10 2] [panel10] noKerf =
     Inr \<lparr>placedPieces = [placedAt ''a'' 0 0 10 10 0, placedAt ''a'' 0 0 10 10 0],
          unusedPieces = [], efficiency = 2, totalArea = 100, usedArea = 200,
          wastedArea = - 100, sheetCount = 2, algorithm = []\<rparr>"
    by (simp add: geneticRunOptimization_def sorted_twins initializePopulation_def init ev)
       (simp add: new objs twinAt_def placedAt_def panel10_def)
  then show ?thesis
    by (simp add: geneticExecute_def)
qed

text \<open>
  C4. Two 10 by 10 pieces on a 10 by 10 panel: the genetic search places both (at the
  origin of sheet 0) and reports a used area of 200 against a total area of 100, an
  efficiency of 2.
\<close>

theorem genetic_efficiency_above_one:
  "geneticExecute constantRandom [plainPiece ''a'' 10 10 2] [panel10] noKerf =
     Inr \<lparr>placedPieces = [placedAt ''a'' 0 0 10 10 0, placedAt ''a'' 0 0 10 10 0],
          unusedPieces = [], efficiency = 2, totalArea = 100, usedArea = 200,
          wastedArea = - 100, sheetCount = 2, algorithm = ''advanced_genetic_algorithm''\<rparr>"
  by (rule genetic_twins_run)

section \<open>Hybrid strategy\<close>

subsection \<open>The local search commits nothing\<close>

lemma foldl_area_copyPosition:
  "foldl (\<lambda>sum' piece. sum' + pp_width piece * pp_height piece) acc
       (map (objects (copyPosition a b st)) refs) =
   foldl (\<lambda>sum' piece. sum' + pp_width piece * pp_height piece) acc (map (objects st) refs)"
  by (induction refs arbitrary: acc) (simp_all add: copyPosition_def Let_def)

lemma placedArea_copyPosition:
  "placedArea (map (objects (copyPosition a b st)) refs) = placedArea (map (objects st) refs)"
  by (simp add: placedArea_def foldl_area_copyPosition)

lemma sheetsEfficiency_copyPosition:
  "sheetsEfficiency (copyPosition a b st) placedLists panel = sheetsEfficiency st placedLists panel"
proof -
  have "foldl (\<lambda>sum' refs. sum' + placedArea (map (objects (copyPosition a b st)) refs)) acc placedLists =
        foldl (\<lambda>sum' refs. sum' + placedArea (map (objects st) refs)) acc placedLists" for acc
    by (induction placedLists arbitrary: acc) (simp_all add: placedArea_copyPosition)
  then show ?thesis by (simp add: sheetsEfficiency_def)
qed

lemma swapStep_improved: "snd (swapStep shs panel idx (st, improved)) = improved"
  by (cases idx) (simp add: swapStep_def Let_def sheetsEfficiency_copyPosition)

lemma fold_swapStep_improved: "snd (fold (swapStep shs panel) idxs (st, improved)) = improved"
proof (induction idxs arbitrary: st improved)
  case Nil
  show ?case by simp
next
  case (Cons idx idxs)
  obtain st1 improved1 where step: "swapStep shs panel idx (st, improved) = (st1, improved1)"
    by (cases "swapStep shs panel idx (st, improved)")
  then have "improved1 = improved"
    using swapStep_improved [of shs panel idx st improved] by simp
  then show ?case using Cons.IH [of st1 improved] step by simp
qed

lemma localSearchPass_not_improved: "snd (localSearchPass state panel) = False"
proof -
  obtain st improved where
    run: "fold (swapStep (sheets state) panel) (swapIndices (sheets state)) (store state, False)
            = (st, improved)"
    by (cases "fold (swapStep (sheets state) panel) (swapIndices (sheets state)) (store state, False)")
  then have "improved = False"
    using fold_swapStep_improved [of "sheets state" panel "swapIndices (sheets state)"
        "store state" False] by simp
  then show ?thesis by (simp add: localSearchPass_def run)
qed

lemma localSearchImprovement_one_pass:
  "localSearchImprovement state panel = fst (localSearchPass state panel)"
proof -
  obtain state1 improved1 where pass: "localSearchPass state panel = (state1, improved1)"
    by (cases "localSearchPass state panel")
  then have "improved1 = False"
    using localSearchPass_not_improved [of state panel] by simp
  then show ?thesis
    by (simp add: localSearchImprovement_def pass)
qed

text \<open>
  The only test before an exchange is committed is that the recomputed efficiency of the
  two sheets is strictly greater than the current one. An exchange of positions changes
  no area, so the test never succeeds: for every state, a pass of the local search
  leaves the flag \<open>improved\<close> false, and the whole search is its first pass.
\<close>

lemma localSearch_commits_nothing:
  "snd (localSearchPass state panel) = False \<and>
   localSearchImprovement state panel = fst (localSearchPass state panel)"
  by (simp add: localSearchPass_not_improved localSearchImprovement_one_pass)

text \<open>
  A remark on the function outside of any run. On a state with two sheets, which the
  constructive phase never produces (\<open>singleSheet_constructive\<close> below), the tentative
  exchange would write to the pieces themselves, since the second array holds the same
  objects: piece A (6 by 6, at the origin of sheet 0) would take the position (5, 5) of
  piece B.
\<close>

lemma localSearch_two_sheets_remark:
  "statePlacedPieces twoSheets = [placedAt ''A'' 0 0 6 6 0, placedAt ''B'' 5 5 4 4 1] \<and>
   statePlacedPieces (localSearchImprovement twoSheets panel10) =
     [placedAt ''A'' 5 5 6 6 0, placedAt ''B'' 5 5 4 4 1] \<and>
   validPlacement panel10 [placedAt ''A'' 0 0 6 6 0, placedAt ''B'' 5 5 4 4 1] \<and>
   \<not> validPlacement panel10 [placedAt ''A'' 5 5 6 6 0, placedAt ''B'' 5 5 4 4 1]"
  by (simp add: localSearchImprovement_one_pass localSearchPass_def twoSheets_def swapIndices_def
     swapStep_def sheetsEfficiency_def placedArea_def copyPosition_def statePlacedPieces_def
     placedAt_def panel10_def validPlacement_def inBounds_def collide_def piecesOverlap_def Let_def)

subsection \<open>A run has one sheet and at most one piece\<close>

lemma splitSpace_self: "0 \<le> k \<Longrightarrow> splitSpace [space] space w h k = []"
  by (auto simp: splitSpace_def splitOne_def spaceOverlapsUsed_def)

lemma inBounds_placePiece:
  "canPlacePiece piece (panelRectangle panel) rot \<Longrightarrow>
   inBounds panel (placePiece piece (panelRectangle panel) rot i)"
  by (auto simp: canPlacePiece_def placePiece_def inBounds_def panelRectangle_def Let_def)

lemma singleSheet_initial: "singleSheet panel (initialState panel)"
  by (simp add: singleSheet_def initialState_def emptySheet_def panelRectangle_def)

lemma tryExistingSheets_nothing:
  assumes "sheets state = [sheet]" and "availableSpace sheet = [space]"
    and "\<not> canPlacePiece piece space False"
    and "\<not> (canRotate piece = Some True \<and> canPlacePiece piece space True)"
  shows "tryExistingSheets state piece 0 = (state, False)"
  using assms by (subst tryExistingSheets.simps) (simp add: tryExistingSheets.simps [of state piece "Suc 0"])

lemma singleSheet_step:
  assumes "singleSheet panel state"
  shows "singleSheet panel (constructiveStep panel state piece)"
proof -
  obtain sheet where sh: "sheets state = [sheet]" and cur: "currentSheet state = 0"
    and cases: "(sheet_placedPieces sheet = [] \<and> availableSpace sheet = [panelRectangle panel]) \<or>
         (availableSpace sheet = [] \<and>
          (\<exists>a. sheet_placedPieces sheet = [a] \<and> inBounds panel (objects (store state) a)))"
    using assms unfolding singleSheet_def by blast
  show ?thesis
  proof (cases "availableSpace sheet")
    case Nil
    then show ?thesis using assms by (simp add: constructiveStep_def sh cur)
  next
    case (Cons space0 rest)
    then have free: "sheet_placedPieces sheet = []" "availableSpace sheet = [panelRectangle panel]"
      using cases by auto
    have placed: "singleSheet panel (placeOnSheet state piece rot 0)"
      if "canPlacePiece piece (panelRectangle panel) rot" for rot
      using inBounds_placePiece [OF that, of 0]
      by (simp add: singleSheet_def placeOnSheet_def sh cur free newObject_def splitSpace_self Let_def)
    show ?thesis
    proof (cases "canPlacePiece piece (panelRectangle panel) False")
      case True
      then show ?thesis using placed [of False] by (simp add: constructiveStep_def sh cur free)
    next
      case unrot: False
      show ?thesis
      proof (cases "canRotate piece = Some True \<and> canPlacePiece piece (panelRectangle panel) True")
        case True
        then show ?thesis using placed [of True] unrot by (simp add: constructiveStep_def sh cur free)
      next
        case False
        have "tryExistingSheets state piece 0 = (state, False)"
          using tryExistingSheets_nothing [OF sh free(2) unrot False] .
        moreover have "tryNewSheet state piece panel = state"
          using unrot by (simp add: tryNewSheet_def emptySheet_def panelRectangle_def)
        ultimately show ?thesis
          using assms unrot False by (auto simp add: constructiveStep_def sh cur free)
      qed
    qed
  qed
qed

lemma singleSheet_constructive:
  "singleSheet panel state \<Longrightarrow> singleSheet panel (constructivePlacement state pieces panel)"
  unfolding constructivePlacement_def
  by (induction pieces arbitrary: state) (simp_all add: singleSheet_step)

lemma localSearch_singleSheet:
  assumes "singleSheet panel state"
  shows "localSearchImprovement state panel = state"
proof -
  obtain sheet where "sheets state = [sheet]"
    using assms unfolding singleSheet_def by blast
  then have "swapIndices (sheets state) = []"
    by (simp add: swapIndices_def)
  then show ?thesis
    by (simp add: localSearchImprovement_one_pass localSearchPass_def)
qed

lemma hybrid_valid:
  "validPlacement panel (placedPieces (hybridRunOptimization pieces panel settings))"
proof -
  define state where "state = constructivePlacement (initialState panel) pieces panel"
  have single: "singleSheet panel state"
    unfolding state_def by (intro singleSheet_constructive singleSheet_initial)
  then have final: "hybridFinalState pieces panel = state"
    by (simp add: hybridFinalState_def localSearch_singleSheet flip: state_def)
  have "validPlacement panel (statePlacedPieces state)"
    using single unfolding singleSheet_def
    by (auto simp: statePlacedPieces_def validPlacement_def)
  then show ?thesis
    by (simp add: hybridRunOptimization_def final Let_def)
qed


section \<open>Beam search places at most one piece\<close>

lemma splitSpace_panel:
  "0 \<le> k \<or> (0 < panel_width panel \<and> 0 < panel_height panel) \<Longrightarrow>
   splitSpace [panelRectangle panel] (panelRectangle panel) w h k = []"
  by (auto simp: splitSpace_def splitOne_def spaceOverlapsUsed_def panelRectangle_def)

lemma beamChildren_ok:
  assumes "beamNodeOK panel node" and "space \<in> set (node_availableSpaces node)"
    and "0 \<le> kerf settings \<or> (0 < panel_width panel \<and> 0 < panel_height panel)"
  shows "\<forall>child \<in> set (beamChildren settings node piece a space). beamNodeOK panel child"
proof -
  have free: "node_placedPieces node = []" "node_availableSpaces node = [panelRectangle panel]"
    and space: "space = panelRectangle panel"
    using assms(1,2) unfolding beamNodeOK_def by auto
  show ?thesis
    using inBounds_placePiece [of piece panel False 0] inBounds_placePiece [of piece panel True 0]
    by (auto simp: beamChildren_def beamNodeOK_def free space splitSpace_panel [OF assms(3)] Let_def)
qed

lemma expandNode_ok:
  assumes "\<forall>n \<in> set newBeam. beamNodeOK panel n" and "beamNodeOK panel node"
    and "0 \<le> kerf settings \<or> (0 < panel_width panel \<and> 0 < panel_height panel)"
  shows "\<forall>n \<in> set (snd (expandNode settings (st, newBeam) node)). beamNodeOK panel n"
proof (cases "arrays st (node_pieces node)")
  case Nil
  then show ?thesis using assms(1) by (simp add: expandNode_def)
next
  case (Cons piece rest)
  show ?thesis
    using assms(1) beamChildren_ok [OF assms(2) _ assms(3)]
    by (auto simp: expandNode_def Cons newArray_def Let_def)
qed

lemma foldl_expandNode_ok:
  assumes "0 \<le> kerf settings \<or> (0 < panel_width panel \<and> 0 < panel_height panel)"
  shows "\<forall>n \<in> set newBeam. beamNodeOK panel n \<Longrightarrow> \<forall>n \<in> set beam. beamNodeOK panel n \<Longrightarrow>
    \<forall>n \<in> set (snd (foldl (expandNode settings) (st, newBeam) beam)). beamNodeOK panel n"
proof (induction beam arbitrary: st newBeam)
  case Nil
  then show ?case by simp
next
  case (Cons node beam)
  obtain st1 newBeam1 where step: "expandNode settings (st, newBeam) node = (st1, newBeam1)"
    by (cases "expandNode settings (st, newBeam) node")
  have "\<forall>n \<in> set newBeam1. beamNodeOK panel n"
    using expandNode_ok [OF Cons.prems(1) _ assms, where node = node and st = st]
      Cons.prems(2) step by simp
  then show ?case
    using Cons.IH [where newBeam = newBeam1 and st = st1] Cons.prems(2) by (simp add: step)
qed

lemma beamLoop_ok:
  assumes "0 \<le> kerf settings \<or> (0 < panel_width panel \<and> 0 < panel_height panel)"
  shows "\<forall>n \<in> set beam. beamNodeOK panel n \<Longrightarrow>
    \<forall>n \<in> set (snd (beamLoop settings depth st beam)). beamNodeOK panel n"
proof (induction depth arbitrary: st beam)
  case 0
  then show ?case by simp
next
  case (Suc depth)
  obtain st1 newBeam where
    step: "foldl (expandNode settings) (st, []) beam = (st1, newBeam)"
    by (cases "foldl (expandNode settings) (st, []) beam")
  have "\<forall>n \<in> set newBeam. beamNodeOK panel n"
    using foldl_expandNode_ok [OF assms, where newBeam = "[]" and beam = beam and st = st]
      Suc.prems step by simp
  then have "\<forall>n \<in> set (take beamWidth (sortWith compareScore newBeam)). beamNodeOK panel n"
    by (meson in_set_takeD set_sortWith [of compareScore newBeam, THEN equalityD1] subsetD)
  then show ?case
    using Suc.IH Suc.prems by (simp add: step)
qed

lemma beam_valid:
  assumes "0 \<le> kerf settings \<or> (0 < panel_width panel \<and> 0 < panel_height panel)" and "beamRunOptimization pieces panel settings = Inr r"
  shows "validPlacement panel (placedPieces r)"
proof -
  obtain a store0 where start: "newArray pieces emptyStore = (a, store0)"
    by (cases "newArray pieces emptyStore")
  define initialNode where "initialNode =
     \<lparr>node_placedPieces = [], node_availableSpaces = [panelRectangle panel],
      node_pieces = a, score = 0\<rparr>"
  obtain st beam where
    run: "beamLoop settings (length pieces) store0 [initialNode] = (st, beam)"
    by (cases "beamLoop settings (length pieces) store0 [initialNode]")
  have "\<forall>n \<in> set [initialNode]. beamNodeOK panel n"
    by (simp add: beamNodeOK_def initialNode_def)
  then have "\<forall>n \<in> set (snd (beamLoop settings (length pieces) store0 [initialNode])).
               beamNodeOK panel n"
    by (rule beamLoop_ok [OF assms(1)])
  then have ok: "\<forall>n \<in> set beam. beamNodeOK panel n"
    by (simp only: run snd_conv)
  have unfold: "beamRunOptimization pieces panel settings =
     (case beam of
           [] \<Rightarrow> Inl (Error ''No valid solution found'')
         | bestNode # _ \<Rightarrow>
             (let total = panel_width panel * panel_height panel;
                  used = placedArea (node_placedPieces bestNode)
              in Inr \<lparr>placedPieces = node_placedPieces bestNode,
                      unusedPieces = arrays st (node_pieces bestNode),
                      efficiency = used / total, totalArea = total, usedArea = used,
                      wastedArea = total - used, sheetCount = 1, algorithm = []\<rparr>))"
    by (simp only: beamRunOptimization_def start Let_def prod.case
        run [unfolded initialNode_def panelRectangle_def])
  show ?thesis
  proof (cases beam)
    case Nil
    then show ?thesis using assms(2) by (simp add: unfold)
  next
    case (Cons bestNode others)
    then have "beamNodeOK panel bestNode" using ok by simp
    then have "validPlacement panel (node_placedPieces bestNode)"
      by (auto simp: beamNodeOK_def validPlacement_def)
    then show ?thesis using assms(2) by (auto simp: unfold Cons Let_def)
  qed
qed

section \<open>Placements within bounds and free of collisions\<close>

text \<open>
  C1. Two 10 by 10 pieces on a 10 by 10 panel, given to the genetic search: the first
  piece takes the whole free rectangle, the second goes the way of the new sheet and is
  placed at the origin with sheet number 0 as well. The result, returned at generation 0
  before any mutation, holds two placed pieces of sheet 0 that overlap.
\<close>

theorem genetic_pieces_overlap:
  "(case geneticExecute constantRandom [plainPiece ''a'' 10 10 2] [panel10] noKerf of
      Inl e \<Rightarrow> False
    | Inr r \<Rightarrow> placedPieces r = [placedAt ''a'' 0 0 10 10 0, placedAt ''a'' 0 0 10 10 0] \<and>
               \<not> noCollisions (placedPieces r))"
  by (simp add: genetic_twins_run) (simp add: collide_def piecesOverlap_def placedAt_def)

end
